theory Spec2Isabelle
  imports Complex_Main "HOL-Library.Multiset" "HOL-Library.AList"
    "HOL-Library.Char_ord" "HOL-Library.List_Lexorder"
begin

section \<open>Values of the numerical arrays and Python exceptions\<close>

text \<open>
  The arrays of the pipeline hold IEEE doubles. Rounding is not modelled: a finite value is
  a real number. The special values are, because the code tests for them (\<open>np.isnan\<close>,
  \<open>flux != 0\<close>) and produces them (a division by zero).
\<close>

datatype npfloat = Num real | PInf | NInf | NaN

datatype error =
    ValueError | IndexError | IOError | TypeError | UnboundLocalError | OverflowError
  | UnpicklingError | FitError

fun np_lt :: "npfloat \<Rightarrow> npfloat \<Rightarrow> bool" where
  "np_lt NaN _ = False"
| "np_lt _ NaN = False"
| "np_lt (Num a) (Num b) = (a < b)"
| "np_lt NInf PInf = True"
| "np_lt NInf (Num _) = True"
| "np_lt (Num _) PInf = True"
| "np_lt _ _ = False"

definition np_gt :: "npfloat \<Rightarrow> npfloat \<Rightarrow> bool" where
  "np_gt a b = np_lt b a"

definition np_eq :: "npfloat \<Rightarrow> npfloat \<Rightarrow> bool" where
  "np_eq a b = (a \<noteq> NaN \<and> b \<noteq> NaN \<and> a = b)"

definition np_ne :: "npfloat \<Rightarrow> npfloat \<Rightarrow> bool" where
  "np_ne a b = (\<not> np_eq a b)"


definition isnan :: "npfloat \<Rightarrow> bool" where
  "isnan a = (a = NaN)"

text \<open>\<open>np.maximum\<close>: the larger of two values, NaN as soon as one is NaN.\<close>

definition np_maximum :: "npfloat \<Rightarrow> npfloat \<Rightarrow> npfloat" where
  "np_maximum a b = (if isnan a \<or> isnan b then NaN else if np_lt a b then b else a)"

text \<open>
  \<open>column.max()\<close> of a table column: ValueError on a column of size zero. A column with NaN
  cells is read from the file as a masked column, and its maximum is taken over the cells
  that are not NaN; when every cell is NaN the maximum is the masked constant, for which
  NaN stands here.
\<close>

definition np_max :: "npfloat list \<Rightarrow> error + npfloat" where
  "np_max xs =
     (if xs = [] then Inl ValueError
      else case filter (\<lambda>x. \<not> isnan x) xs of
             [] \<Rightarrow> Inr NaN
           | x # r \<Rightarrow> Inr (fold np_maximum r x))"

section \<open>Spectrum Loader (run\_ppxf, lines 205--216)\<close>

text \<open>
  The input table has the columns WAVE, FLUX and FLUX\_ERR; a table is a list of rows, so
  the three columns have one length.
\<close>

record sample =
  wave :: npfloat
  flux :: npfloat
  fluxerr :: npfloat

text \<open>\<open>wave.to(u.angstrom)\<close>: micrometer to angstrom.\<close>

fun to_angstrom :: "npfloat \<Rightarrow> npfloat" where
  "to_angstrom (Num w) = Num (w * 10000)"
| "to_angstrom x = x"

text \<open>
  \<open>idx = np.where(flux != 0)\<close>, then the three columns indexed by \<open>idx\<close>.
\<close>

definition remove_zeros :: "sample list \<Rightarrow> sample list" where
  "remove_zeros rows = filter (\<lambda>s. np_ne (flux s) (Num 0)) rows"

text \<open>\<open>fluxerr[fluxerr == 0] = fluxerr.max()\<close>\<close>

definition replace_zero_errors :: "npfloat list \<Rightarrow> error + npfloat list" where
  "replace_zero_errors errs =
     (case np_max errs of
        Inl e \<Rightarrow> Inl e
      | Inr m \<Rightarrow> Inr (map (\<lambda>e. if np_eq e (Num 0) then m else e) errs))"

definition set_errors :: "sample list \<Rightarrow> npfloat list \<Rightarrow> sample list" where
  "set_errors rows errs = map (\<lambda>(s, e). s\<lparr>fluxerr := e\<rparr>) (zip rows errs)"

definition load_spectrum :: "sample list \<Rightarrow> error + sample list" where
  "load_spectrum data =
     (let rows = map (\<lambda>s. s\<lparr>wave := to_angstrom (wave s)\<rparr>) data;
          rows = remove_zeros rows
      in case replace_zero_errors (map fluxerr rows) of
           Inl e \<Rightarrow> Inl e
         | Inr errs \<Rightarrow> Inr (set_errors rows errs))"

text \<open>
  The loader as the specification words it: only the zero-flux samples at the two borders
  are dropped.
\<close>

definition spec_trim_borders :: "sample list \<Rightarrow> sample list" where
  "spec_trim_borders rows =
     rev (dropWhile (\<lambda>s. flux s = Num 0) (rev (dropWhile (\<lambda>s. flux s = Num 0) rows)))"


section \<open>Arithmetic on array values\<close>

text \<open>
  IEEE arithmetic on the special values; on finite values the exact real operation. The two
  signed zeros are one value \<open>Num 0\<close>, so a zero divisor counts as \<open>+0.0\<close>.
\<close>

fun np_neg :: "npfloat \<Rightarrow> npfloat" where
  "np_neg (Num a) = Num (- a)"
| "np_neg PInf = NInf"
| "np_neg NInf = PInf"
| "np_neg NaN = NaN"

fun np_add :: "npfloat \<Rightarrow> npfloat \<Rightarrow> npfloat" where
  "np_add NaN _ = NaN"
| "np_add _ NaN = NaN"
| "np_add (Num a) (Num b) = Num (a + b)"
| "np_add PInf NInf = NaN"
| "np_add NInf PInf = NaN"
| "np_add PInf _ = PInf"
| "np_add _ PInf = PInf"
| "np_add NInf _ = NInf"
| "np_add _ NInf = NInf"

definition np_sub :: "npfloat \<Rightarrow> npfloat \<Rightarrow> npfloat" where
  "np_sub a b = np_add a (np_neg b)"

definition signed_inf :: "bool \<Rightarrow> npfloat" where
  "signed_inf positive = (if positive then PInf else NInf)"

fun np_mul :: "npfloat \<Rightarrow> npfloat \<Rightarrow> npfloat" where
  "np_mul NaN _ = NaN"
| "np_mul _ NaN = NaN"
| "np_mul (Num a) (Num b) = Num (a * b)"
| "np_mul (Num a) PInf = (if a = 0 then NaN else signed_inf (0 < a))"
| "np_mul (Num a) NInf = (if a = 0 then NaN else signed_inf (a < 0))"
| "np_mul PInf (Num b) = (if b = 0 then NaN else signed_inf (0 < b))"
| "np_mul NInf (Num b) = (if b = 0 then NaN else signed_inf (b < 0))"
| "np_mul PInf PInf = PInf"
| "np_mul PInf NInf = NInf"
| "np_mul NInf PInf = NInf"
| "np_mul NInf NInf = PInf"

fun np_div :: "npfloat \<Rightarrow> npfloat \<Rightarrow> npfloat" where
  "np_div NaN _ = NaN"
| "np_div _ NaN = NaN"
| "np_div (Num a) (Num b) =
     (if b = 0 then (if a = 0 then NaN else signed_inf (0 < a)) else Num (a / b))"
| "np_div (Num a) PInf = Num 0"
| "np_div (Num a) NInf = Num 0"
| "np_div PInf (Num b) = signed_inf (0 \<le> b)"
| "np_div NInf (Num b) = signed_inf (b < 0)"
| "np_div _ _ = NaN"

definition np_sum :: "npfloat list \<Rightarrow> npfloat" where
  "np_sum xs = fold (\<lambda>x acc. np_add acc x) xs (Num 0)"

section \<open>Arrays\<close>

text \<open>
  A two-dimensional array keeps its shape beside its rows, so that an array with no row or
  no column still has the other dimension, as in numpy.
\<close>

record array2 =
  shape0 :: nat
  shape1 :: nat
  rows :: "npfloat list list"

definition wf_array2 :: "array2 \<Rightarrow> bool" where
  "wf_array2 a = (length (rows a) = shape0 a \<and> list_all (\<lambda>r. length r = shape1 a) (rows a))"

text \<open>Python slices \<open>xs[:k]\<close> and \<open>xs[k:]\<close>: a negative bound counts from the end.\<close>

definition slice_to :: "int \<Rightarrow> 'a list \<Rightarrow> 'a list" where
  "slice_to k xs = (if 0 \<le> k then take (nat k) xs else take (length xs - nat (- k)) xs)"

definition slice_from :: "int \<Rightarrow> 'a list \<Rightarrow> 'a list" where
  "slice_from k xs = (if 0 \<le> k then drop (nat k) xs else drop (length xs - nat (- k)) xs)"

text \<open>\<open>a[:, :k]\<close> and \<open>a[:, k:]\<close>\<close>

definition cols_to :: "int \<Rightarrow> array2 \<Rightarrow> array2" where
  "cols_to k a = a\<lparr>shape1 := length (slice_to k (replicate (shape1 a) ())),
                   rows := map (slice_to k) (rows a)\<rparr>"

definition cols_from :: "int \<Rightarrow> array2 \<Rightarrow> array2" where
  "cols_from k a = a\<lparr>shape1 := length (slice_from k (replicate (shape1 a) ())),
                     rows := map (slice_from k) (rows a)\<rparr>"

text \<open>\<open>a[:k]\<close> on the first axis.\<close>

definition rows_to :: "int \<Rightarrow> array2 \<Rightarrow> array2" where
  "rows_to k a = a\<lparr>shape0 := length (slice_to k (rows a)), rows := slice_to k (rows a)\<rparr>"

text \<open>\<open>a.T\<close>\<close>

definition array_T :: "array2 \<Rightarrow> array2" where
  "array_T a = \<lparr>shape0 = shape1 a, shape1 = shape0 a,
          rows = map (\<lambda>j. map (\<lambda>r. r ! j) (rows a)) [0..<shape1 a]\<rparr>"

text \<open>\<open>np.column_stack((a, b))\<close>: the arrays must have the same number of rows.\<close>

definition column_stack :: "array2 \<Rightarrow> array2 \<Rightarrow> error + array2" where
  "column_stack a b =
     (if shape0 a \<noteq> shape0 b then Inl ValueError
      else Inr \<lparr>shape0 = shape0 a, shape1 = shape1 a + shape1 b,
                rows = map (\<lambda>(r, q). r @ q) (zip (rows a) (rows b))\<rparr>)"

text \<open>\<open>a.dot(v)\<close> of a matrix and a vector: ValueError when the shapes are not aligned.\<close>

definition inner :: "npfloat list \<Rightarrow> npfloat list \<Rightarrow> npfloat" where
  "inner r v = np_sum (map (\<lambda>(x, y). np_mul x y) (zip r v))"

definition dot :: "array2 \<Rightarrow> npfloat list \<Rightarrow> error + npfloat list" where
  "dot a v = (if shape1 a \<noteq> length v then Inl ValueError
              else Inr (map (\<lambda>r. inner r v) (rows a)))"

text \<open>\<open>x[idx]\<close> with an array of positions: IndexError when a position is out of bounds.\<close>

definition take_idx :: "'a list \<Rightarrow> nat list \<Rightarrow> error + 'a list" where
  "take_idx xs idx = (if list_all (\<lambda>i. i < length xs) idx then Inr (map (\<lambda>i. xs ! i) idx)
                      else Inl IndexError)"

text \<open>\<open>xs[0]\<close> and \<open>xs[-1]\<close>\<close>

definition item_first :: "'a list \<Rightarrow> error + 'a" where
  "item_first xs = (case xs of [] \<Rightarrow> Inl IndexError | x # _ \<Rightarrow> Inr x)"

definition item_last :: "'a list \<Rightarrow> error + 'a" where
  "item_last xs = (if xs = [] then Inl IndexError else Inr (last xs))"

definition and_then :: "error + 'a \<Rightarrow> ('a \<Rightarrow> error + 'b) \<Rightarrow> error + 'b" where
  "and_then m f = (case m of Inl e \<Rightarrow> Inl e | Inr x \<Rightarrow> f x)"

definition zeros_like :: "'a list \<Rightarrow> npfloat list" where
  "zeros_like xs = replicate (length xs) (Num 0)"

definition ones_like :: "'a list \<Rightarrow> npfloat list" where
  "ones_like xs = replicate (length xs) (Num 1)"

definition arange :: "nat \<Rightarrow> nat list" where
  "arange n = [0..<n]"

text \<open>\<open>np.argwhere(cond).ravel()\<close>, \<open>np.where(cond)[0]\<close>: the positions where the condition holds.\<close>

definition argwhere :: "('a \<Rightarrow> bool) \<Rightarrow> 'a list \<Rightarrow> nat list" where
  "argwhere p xs = filter (\<lambda>i. p (xs ! i)) [0..<length xs]"

text \<open>\<open>np.intersect1d(a, b)\<close>: the sorted, unique values that are in both arrays.\<close>

definition intersect1d :: "nat list \<Rightarrow> nat list \<Rightarrow> nat list" where
  "intersect1d a b = sort (remdups (filter (\<lambda>x. x \<in> set b) a))"

section \<open>Bad-Pixel Mask Builder (run\_ppxf, lines 234--244)\<close>

definition skylines :: "int list" where
  "skylines = [4785, 5577, 5889, 6300, 6863]"

text \<open>\<open>np.argwhere((lam < line - 15) | (lam > line + 15)).ravel()\<close>\<close>

definition skyline :: "npfloat list \<Rightarrow> int \<Rightarrow> nat list" where
  "skyline lam line =
     argwhere (\<lambda>x. np_lt x (Num (of_int (line - 15))) \<or> np_gt x (Num (of_int (line + 15)))) lam"

definition nans :: "npfloat list \<Rightarrow> nat list" where
  "nans galaxy = argwhere (\<lambda>x. \<not> isnan x) galaxy"

definition make_goodpixels :: "npfloat list \<Rightarrow> npfloat list \<Rightarrow> nat list" where
  "make_goodpixels lam galaxy =
     (let goodpixels = arange (length lam);
          goodpixels = fold (\<lambda>line gp. intersect1d gp (skyline lam line)) skylines goodpixels
      in intersect1d goodpixels (nans galaxy))"

text \<open>
  The same intersections taken in any order: the exclusions as a list of index arrays,
  folded over the starting array.
\<close>

definition exclusions :: "npfloat list \<Rightarrow> npfloat list \<Rightarrow> nat list list" where
  "exclusions lam galaxy = map (skyline lam) skylines @ [nans galaxy]"

definition intersect_all :: "nat list list \<Rightarrow> nat list \<Rightarrow> nat list" where
  "intersect_all steps start = fold (\<lambda>s gp. intersect1d gp s) steps start"

text \<open>The pixel set as the specification words it.\<close>

definition in_window :: "int \<Rightarrow> npfloat \<Rightarrow> bool" where
  "in_window L x = (\<not> (np_lt x (Num (of_int L - 15)) \<or> np_gt x (Num (of_int L + 15))))"

definition spec_goodpixels :: "npfloat list \<Rightarrow> npfloat list \<Rightarrow> nat set" where
  "spec_goodpixels lam galaxy =
     {i. i < length lam \<and> i < length galaxy \<and>
         (\<forall>L \<in> {4785, 5577, 5889, 6300, 6863}. \<not> in_window L (lam ! i)) \<and>
         galaxy ! i \<noteq> NaN}"

section \<open>Result Decomposer (class pPXF)\<close>

text \<open>
  \<open>np.linspace(-1, 1, n)\<close> and \<open>np.polynomial.legendre.legval(x, c)\<close>, the series
  \<open>c\<^sub>0 P\<^sub>0(x) + c\<^sub>1 P\<^sub>1(x) + ...\<close> of Legendre polynomials.
\<close>

definition linspace_m1_1 :: "nat \<Rightarrow> real list" where
  "linspace_m1_1 n = map (\<lambda>i. - 1 + real i * (2 / real (n - 1))) [0..<n]"

fun legendre_P :: "nat \<Rightarrow> real \<Rightarrow> real" where
  "legendre_P 0 x = 1"
| "legendre_P (Suc 0) x = x"
| "legendre_P (Suc (Suc n)) x =
     ((2 * real n + 3) * x * legendre_P (Suc n) x - (real n + 1) * legendre_P n x) / (real n + 2)"

definition legval1 :: "real \<Rightarrow> npfloat list \<Rightarrow> npfloat" where
  "legval1 x c = np_sum (map (\<lambda>(k, ck). np_mul ck (Num (legendre_P k x))) (enumerate 0 c))"

definition legval :: "real list \<Rightarrow> npfloat list \<Rightarrow> npfloat list" where
  "legval xs c = map (\<lambda>x. legval1 x c) xs"

text \<open>
  The kinematic solution of the fitter, its attributes \<open>sol\<close>, \<open>error\<close> and \<open>ncomp\<close>. With one
  kinematic component \<open>ncomp\<close> is 1 and \<open>sol\<close> and \<open>error\<close> are one vector each; with more
  components they are lists of one vector per component. A value of the type is a solution
  as the fitter sets it: a pair is the \<open>sol\<close> and the \<open>error\<close> of one component, and the three
  attributes agree.
\<close>

datatype kinematics =
    Single "npfloat list" "npfloat list"
  | Multiple "npfloat list \<times> npfloat list" "npfloat list \<times> npfloat list"
      "(npfloat list \<times> npfloat list) list"

definition ncomp :: "kinematics \<Rightarrow> nat" where
  "ncomp k = (case k of Single _ _ \<Rightarrow> 1 | Multiple _ _ others \<Rightarrow> 2 + length others)"

text \<open>The attributes of the object returned by \<open>ppxf\<close> that this repository reads.\<close>

record ppxf_out =
  matrix :: array2
  degree :: int
  mdegree :: int
  polyweights :: "npfloat list option"
  mpolyweights :: "npfloat list option"
  reddening :: "npfloat option"
  weights :: "npfloat list"
  galaxy :: "npfloat list"
  bestfit :: "npfloat list"
  noise :: "npfloat list"
  lam :: "npfloat list"
  goodpixels :: "nat list"
  solution :: kinematics
  chi2 :: npfloat

text \<open>The object after run\_ppxf has attached its own attributes (lines 248--259).\<close>

record tagged_fit =
  pp :: ppxf_out
  name :: string
  title :: string
  has_emission :: bool
  dv :: npfloat
  w :: "npfloat list"
  velscale :: npfloat
  ngas :: nat
  ntemplates :: nat

text \<open>The arrays computed by \<open>calc_arrays\<close> and \<open>calc_sn\<close>.\<close>

record components =
  apoly :: "npfloat list"
  mpoly :: "npfloat list"
  extinction :: "npfloat list"
  star_weights :: "npfloat list"
  gas_weights :: "npfloat list"
  sky_weights :: "npfloat list"
  ssps :: "npfloat list"
  gas :: "npfloat list"
  bestsky :: "npfloat list"

definition calc_arrays ::
  "(npfloat list \<Rightarrow> npfloat \<Rightarrow> npfloat list) \<Rightarrow> tagged_fit \<Rightarrow> error + components" where
  "calc_arrays reddening_cal00 self =
     (let m0 = matrix (pp self);
          mpoly_cols = cols_to (degree (pp self) + 1) m0;
          m1 = cols_from (degree (pp self) + 1) m0;
          ssps_cols = cols_to (int (ntemplates self)) m1;
          m2 = cols_from (int (ntemplates self)) m1;
          gas_cols = cols_to (int (ngas self)) m2;
          m3 = cols_from (int (ngas self)) m2;
          sky_cols = m3
      in and_then (case polyweights (pp self) of
                     Some pw \<Rightarrow> dot mpoly_cols pw
                   | None \<Rightarrow> Inr (zeros_like (galaxy (pp self)))) (\<lambda>apoly'.
         let mpoly' = (case mpolyweights (pp self) of
                         Some mw \<Rightarrow> legval (linspace_m1_1 (length (galaxy (pp self)))) (Num 1 # mw)
                       | None \<Rightarrow> ones_like (galaxy (pp self)));
             extinction' = (case reddening (pp self) of
                              Some r \<Rightarrow> reddening_cal00 (lam (pp self)) r
                            | None \<Rightarrow> ones_like (galaxy (pp self)));
             w0 = weights (pp self);
             star_w = slice_to (int (ntemplates self)) w0;
             w1 = slice_from (int (ntemplates self)) w0;
             gas_w = slice_to (int (ngas self)) w1;
             w2 = slice_from (int (ngas self)) w1;
             sky_w = w2
         in and_then (dot ssps_cols star_w) (\<lambda>ssps'.
            and_then (dot gas_cols gas_w) (\<lambda>gas'.
            and_then (dot sky_cols sky_w) (\<lambda>bestsky'.
            Inr \<lparr>apoly = apoly', mpoly = mpoly', extinction = extinction',
                 star_weights = star_w, gas_weights = gas_w, sky_weights = sky_w,
                 ssps = ssps', gas = gas', bestsky = bestsky'\<rparr>)))))"

text \<open>
  The library functions of \<open>calc_sn\<close>: \<open>np.nanmedian\<close>, \<open>astropy.stats.sigma_clip\<close>, whose
  result is a masked array (a value and its mask flag for every entry), and \<open>np.nanstd\<close>,
  which may raise. They compute in floating point and are parameters of the model.
\<close>

type_synonym masked_array = "(npfloat \<times> bool) list"

record numerics =
  nanmedian :: "npfloat list \<Rightarrow> npfloat"
  sigma_clip :: "npfloat list \<Rightarrow> real \<Rightarrow> masked_array"
  nanstd :: "masked_array \<Rightarrow> error + npfloat"

record sn_values =
  signal :: npfloat
  meannoise :: npfloat
  sn :: npfloat

definition calc_sn :: "numerics \<Rightarrow> tagged_fit \<Rightarrow> error + sn_values" where
  "calc_sn np self =
     and_then (take_idx (galaxy (pp self)) (goodpixels (pp self))) (\<lambda>g.
     let signal' = nanmedian np g
     in and_then (take_idx (bestfit (pp self)) (goodpixels (pp self))) (\<lambda>b.
        and_then (nanstd np (sigma_clip np (map (\<lambda>(x, y). np_sub x y) (zip g b)) 5))
          (\<lambda>meannoise'.
        Inr \<lparr>signal = signal', meannoise = meannoise',
             sn = np_div signal' meannoise'\<rparr>)))"

text \<open>
  The three library functions in exact arithmetic, as their documentation describes them;
  the examples use them as stand-ins, on inputs whose outcome no rounding changes.

  The median: the NaN entries are dropped, the rest is sorted (infinities at the two ends)
  and the middle value, or the mean of the two middle values, is returned; NaN when nothing
  is left.
\<close>

definition finite_values :: "npfloat list \<Rightarrow> real list" where
  "finite_values xs = List.map_filter (\<lambda>x. case x of Num r \<Rightarrow> Some r | _ \<Rightarrow> None) xs"

definition np_sort :: "npfloat list \<Rightarrow> npfloat list" where
  "np_sort xs = filter (\<lambda>x. x = NInf) xs @ map Num (sort (finite_values xs))
                @ filter (\<lambda>x. x = PInf) xs"

definition exact_nanmedian :: "npfloat list \<Rightarrow> npfloat" where
  "exact_nanmedian xs =
     (let s = np_sort (filter (\<lambda>x. \<not> isnan x) xs); n = length s
      in if n = 0 then NaN
         else if odd n then s ! (n div 2)
         else np_div (np_add (s ! (n div 2 - 1)) (s ! (n div 2))) (Num 2))"

text \<open>Median, mean and (population) standard deviation of finite values.\<close>

definition median :: "real list \<Rightarrow> real" where
  "median xs =
     (let s = sort xs; n = length s
      in if odd n then s ! (n div 2) else (s ! (n div 2 - 1) + s ! (n div 2)) / 2)"

definition mean :: "real list \<Rightarrow> real" where
  "mean xs = sum_list xs / real (length xs)"

definition std :: "real list \<Rightarrow> real" where
  "std xs = sqrt (mean (map (\<lambda>x. (x - mean xs)\<^sup>2) xs))"

text \<open>
  Sigma clipping with the defaults of the library (at most 5 iterations, centre the median,
  spread the standard deviation): values that are not finite are masked first; each
  iteration keeps the values within \<open>sigma\<close> standard deviations of the median, and the
  iteration stops when nothing was rejected. The standard deviation is then taken over the
  entries left unmasked; when none is left the library raises ValueError.
\<close>

fun sigma_clip_iter :: "nat \<Rightarrow> real \<Rightarrow> real list \<Rightarrow> real list" where
  "sigma_clip_iter 0 sigma xs = xs"
| "sigma_clip_iter (Suc k) sigma xs =
     (let lo = median xs - sigma * std xs; hi = median xs + sigma * std xs;
          ys = filter (\<lambda>x. lo \<le> x \<and> x \<le> hi) xs
      in if length ys = length xs then xs else sigma_clip_iter k sigma ys)"

definition exact_sigma_clip :: "npfloat list \<Rightarrow> real \<Rightarrow> masked_array" where
  "exact_sigma_clip data sigma =
     (let kept = sigma_clip_iter 5 sigma (finite_values data)
      in map (\<lambda>x. (x, case x of Num r \<Rightarrow> r \<notin> set kept | _ \<Rightarrow> True)) data)"

definition unmasked :: "masked_array \<Rightarrow> npfloat list" where
  "unmasked m = map fst (filter (\<lambda>(x, masked). \<not> masked) m)"

definition exact_nanstd :: "masked_array \<Rightarrow> error + npfloat" where
  "exact_nanstd m =
     (let xs = finite_values (unmasked m)
      in if xs = [] then Inl ValueError else Inr (Num (std xs)))"

definition exact_numerics :: numerics where
  "exact_numerics = \<lparr>nanmedian = exact_nanmedian, sigma_clip = exact_sigma_clip,
                      nanstd = exact_nanstd\<rparr>"

text \<open>\<open>pPXF.__init__\<close>: the attributes of the fit, then the derived arrays and the S/N.\<close>

record pPXF =
  fit :: tagged_fit
  dw :: real
  arrays :: components
  snr :: sn_values

definition pPXF_init ::
  "(npfloat list \<Rightarrow> npfloat \<Rightarrow> npfloat list) \<Rightarrow> numerics \<Rightarrow> tagged_fit \<Rightarrow> error + pPXF" where
  "pPXF_init reddening_cal00 np t =
     and_then (calc_arrays reddening_cal00 t) (\<lambda>c.
     and_then (calc_sn np t) (\<lambda>s.
     Inr \<lparr>fit = t, dw = 125 / 100, arrays = c, snr = s\<rparr>))"

text \<open>
  \<open>pPXF.save\<close>: the arrays become the columns of a table (the good pixels as 0/1 flags),
  the large arrays are dropped and the object is pickled. The first column gives the table
  its length; a later column must have that length, or one entry, which is then repeated
  over the table; any other length is refused with ValueError.
\<close>

record saved =
  sv_name :: string
  sv_solution :: kinematics
  sv_chi2 :: npfloat
  sv_sn :: npfloat
  sv_degree :: int
  sv_mdegree :: int
  sv_table :: "(string \<times> npfloat list) list"

definition goodpixel_flags :: "npfloat list \<Rightarrow> nat list \<Rightarrow> npfloat list" where
  "goodpixel_flags wv gp = map (\<lambda>i. if i \<in> set gp then Num 1 else Num 0) (arange (length wv))"

definition broadcast :: "nat \<Rightarrow> npfloat list \<Rightarrow> npfloat list" where
  "broadcast n col = (if length col = n then col else replicate n (hd col))"

definition save :: "pPXF \<Rightarrow> error + saved" where
  "save self =
     (let t = fit self; p = pp t; c = arrays self;
          cols = [(''wave'', w t), (''flux'', galaxy p), (''bestfit'', bestfit p),
                  (''ssps'', ssps c), (''emission'', gas c), (''apoly'', apoly c),
                  (''mpoly'', mpoly c), (''goodpixels'', goodpixel_flags (w t) (goodpixels p)),
                  (''reddening'', extinction c), (''sky'', bestsky c), (''noise'', noise p)]
      in if list_all (\<lambda>(_, col). length col = length (w t) \<or> length col = 1) cols
         then Inr \<lparr>sv_name = name t, sv_solution = solution p, sv_chi2 = chi2 p,
                   sv_sn = sn (snr self), sv_degree = degree p, sv_mdegree = mdegree p,
                   sv_table = map (\<lambda>(n, col). (n, broadcast (length (w t)) col)) cols\<rparr>
         else Inl ValueError)"

text \<open>
  The decomposition as the specification words it: a component is the product of a range
  of columns of the design matrix, counted from its first column, with a vector of weights.
\<close>

definition column_range :: "nat \<Rightarrow> nat \<Rightarrow> array2 \<Rightarrow> npfloat list list" where
  "column_range a b m = map (\<lambda>r. take (b - a) (drop a r)) (rows m)"

definition times_vector :: "npfloat list list \<Rightarrow> npfloat list \<Rightarrow> npfloat list" where
  "times_vector rs v = map (\<lambda>r. inner r v) rs"

text \<open>The value of \<open>signal / 0\<close> in IEEE arithmetic.\<close>

definition over_zero :: "npfloat \<Rightarrow> npfloat" where
  "over_zero s = (case s of
                    Num x \<Rightarrow> if x = 0 then NaN else if 0 < x then PInf else NInf
                  | PInf \<Rightarrow> PInf
                  | NInf \<Rightarrow> NInf
                  | NaN \<Rightarrow> NaN)"

section \<open>Fit Orchestrator (run\_ppxf)\<close>

text \<open>Python values of the keyword arguments handed to the fitter.\<close>

datatype pyval = VNone | VBool bool | VInt int | VFloat npfloat | VList "pyval list"

type_synonym kwargs = "string \<rightharpoonup> pyval"

definition float_array :: "npfloat list \<Rightarrow> pyval" where
  "float_array xs = VList (map VFloat xs)"

definition int_array :: "int list \<Rightarrow> pyval" where
  "int_array xs = VList (map VInt xs)"

text \<open>The template file: stellar templates (HDU 0), emission templates (HDU 1), grid (HDU 3).\<close>

record template_bank =
  stars :: array2
  emission :: array2
  loglam :: "npfloat list"

text \<open>The call \<open>ppxf(templates, galaxy, noise, velscale, **kwargs)\<close>.\<close>

record ppxf_call =
  arg_templates :: array2
  arg_galaxy :: "npfloat list"
  arg_noise :: "npfloat list"
  arg_velscale :: npfloat
  arg_kwargs :: kwargs

text \<open>
  The libraries the orchestration calls: \<open>ppxf_util.log_rebin\<close>, \<open>ppxf\<close>,
  \<open>reddening_cal00\<close>, the statistics of \<open>calc_sn\<close> and the plotting of \<open>pPXF.plot\<close>. They are
  parameters of the model.
\<close>

record externals =
  log_rebin :: "npfloat \<times> npfloat \<Rightarrow> npfloat list \<Rightarrow> npfloat
                  \<Rightarrow> error + (npfloat list \<times> npfloat list \<times> npfloat)"
  ppxf :: "ppxf_call \<Rightarrow> error + ppxf_out"
  reddening_cal00 :: "npfloat list \<Rightarrow> npfloat \<Rightarrow> npfloat list"
  stats :: numerics
  plot :: "pPXF \<Rightarrow> error + string"

fun np_exp :: "npfloat \<Rightarrow> npfloat" where
  "np_exp (Num x) = Num (exp x)"
| "np_exp PInf = PInf"
| "np_exp NInf = Num 0"
| "np_exp NaN = NaN"

text \<open>\<open>constants.c.to("km/s").value\<close>\<close>

definition c_km_s :: real where
  "c_km_s = 299792458 / 1000"

text \<open>\<open>int(velscale)\<close>, as used to name the log directory.\<close>

definition py_int :: "npfloat option \<Rightarrow> error + int" where
  "py_int v = (case v of
                 None \<Rightarrow> Inl TypeError
               | Some (Num r) \<Rightarrow> Inr (if 0 \<le> r then \<lfloor>r\<rfloor> else \<lceil>r\<rceil>)
               | Some NaN \<Rightarrow> Inl ValueError
               | Some _ \<Rightarrow> Inl OverflowError)"

text \<open>Python string methods used on the file names.\<close>

definition endswith :: "string \<Rightarrow> string \<Rightarrow> bool" where
  "endswith s suffix = (length suffix \<le> length s \<and> drop (length s - length suffix) s = suffix)"

text \<open>\<open>fname.replace(".fits", "")\<close>: every occurrence is removed, from the left.\<close>

fun remove_fits :: "string \<Rightarrow> string" where
  "remove_fits [] = []"
| "remove_fits (c # cs) =
     (if take 5 (c # cs) = ''.fits'' then remove_fits (drop 4 cs) else c # remove_fits cs)"

definition upper_char :: "char \<Rightarrow> char" where
  "upper_char c = (let n = (of_char c :: nat) in if 97 \<le> n \<and> n \<le> 122 then char_of (n - 32) else c)"

text \<open>\<open>name.upper().replace("_", " ")\<close>\<close>

definition make_title :: "string \<Rightarrow> string" where
  "make_title name' = map (\<lambda>c. if c = CHR ''_'' then CHR '' '' else c) (map upper_char name')"

text \<open>Lines 170--194 of run\_ppxf: the templates and the component vector, once per batch.\<close>

record batch_setup =
  templates :: "array2 option"
  n_stars :: nat
  n_gas :: nat
  logwave_temp :: "npfloat list"
  velscale_kms :: npfloat
  fit_kwargs :: kwargs

definition set_components ::
  "int \<Rightarrow> array2 \<Rightarrow> array2 \<Rightarrow> kwargs \<Rightarrow> error + (array2 option \<times> kwargs)" where
  "set_components ncomp' stars' emission' kw =
     (let ngas' = shape0 emission'; nstars = shape0 stars'
      in if ncomp' = 1 then
           Inr (Some (array_T stars'),
                kw(''component'' \<mapsto> int_array (replicate nstars 0)))
         else if ncomp' = 2 then
           and_then (column_stack (array_T stars') (array_T emission')) (\<lambda>t.
           Inr (Some t, kw(''component'' \<mapsto>
                             int_array (replicate nstars 0 @ replicate ngas' 1))))
         else Inr (None, kw))"

definition prepare ::
  "template_bank option \<Rightarrow> npfloat option \<Rightarrow> int \<Rightarrow> bool \<Rightarrow> kwargs \<Rightarrow> error + batch_setup" where
  "prepare tempfile velscale' ncomp' test kw =
     (case tempfile of
        None \<Rightarrow> Inl IOError
      | Some bank \<Rightarrow>
          let stars' = (if test then rows_to 5 (stars bank) else stars bank)
          in and_then (set_components ncomp' stars' (emission bank) kw) (\<lambda>(t, kw').
             and_then (py_int velscale') (\<lambda>_.
             case velscale' of
               None \<Rightarrow> Inl TypeError
             | Some v \<Rightarrow> Inr \<lparr>templates = t, n_stars = shape0 stars',
                               n_gas = shape0 (emission bank), logwave_temp = loglam bank,
                               velscale_kms = v, fit_kwargs = kw'\<rparr>)))"

text \<open>An input file of the data directory: a table, or a file astropy cannot read.\<close>

datatype datafile = Table "sample list" | Unreadable

text \<open>Lines 205--229: load, trim to the range of the templates, rebin flux and uncertainty.\<close>

definition rebin_spectrum ::
  "externals \<Rightarrow> batch_setup \<Rightarrow> datafile \<Rightarrow> error + (npfloat list \<times> npfloat list \<times> npfloat list)" where
  "rebin_spectrum ext cfg file =
     (case file of
        Unreadable \<Rightarrow> Inl IOError
      | Table data \<Rightarrow>
          and_then (load_spectrum data) (\<lambda>loaded.
          let wave_temp = map np_exp (logwave_temp cfg)
          in and_then (item_first wave_temp) (\<lambda>t0.
             and_then (item_last wave_temp) (\<lambda>t1.
             let kept = filter (\<lambda>s. np_gt (wave s) t0 \<and> np_lt (wave s) t1) loaded
             in and_then (item_first (map wave kept)) (\<lambda>w0.
                and_then (item_last (map wave kept)) (\<lambda>w1.
                and_then (log_rebin ext (w0, w1) (map flux kept) (velscale_kms cfg))
                  (\<lambda>(galaxy', logLam, vtemp).
                and_then (log_rebin ext (w0, w1) (map fluxerr kept) (velscale_kms cfg))
                  (\<lambda>(noise', _, _).
                Inr (galaxy', logLam, noise')))))))))"

text \<open>Lines 230--247: velocity offset, mask and the arguments of the call of the fitter.\<close>

definition prepare_call ::
  "externals \<Rightarrow> batch_setup \<Rightarrow> datafile \<Rightarrow> error + (ppxf_call \<times> npfloat \<times> npfloat list)" where
  "prepare_call ext cfg file =
     and_then (rebin_spectrum ext cfg file) (\<lambda>(galaxy', logLam, noise').
     and_then (item_first (logwave_temp cfg)) (\<lambda>l0.
     and_then (item_first logLam) (\<lambda>ll0.
     let dv' = np_mul (np_sub l0 ll0) (Num c_km_s);
         lam' = map np_exp logLam;
         kw = (fit_kwargs cfg)(''lam'' \<mapsto> float_array lam');
         goodpixels' = make_goodpixels lam' galaxy';
         kw = kw(''goodpixels'' \<mapsto> int_array (map int goodpixels'));
         kw = kw(''vsyst'' \<mapsto> VFloat dv')
     in case templates cfg of
          None \<Rightarrow> Inl UnboundLocalError
        | Some tm \<Rightarrow>
            Inr (\<lparr>arg_templates = tm, arg_galaxy = galaxy', arg_noise = noise',
                  arg_velscale = velscale_kms cfg, arg_kwargs = kw\<rparr>, dv', lam'))))"

text \<open>Lines 205--260 for one spectrum: the fit and the object built from it.\<close>

definition fit_spectrum :: "externals \<Rightarrow> batch_setup \<Rightarrow> string \<Rightarrow> datafile \<Rightarrow> error + pPXF" where
  "fit_spectrum ext cfg name' file =
     and_then (prepare_call ext cfg file) (\<lambda>(call, dv', lam').
     and_then (ppxf ext call) (\<lambda>out.
     pPXF_init (reddening_cal00 ext) (stats ext)
       \<lparr>pp = out, name = name', title = make_title name', has_emission = True, dv = dv',
        w = lam', velscale = velscale_kms cfg, ngas = n_gas cfg, ntemplates = n_stars cfg\<rparr>))"

text \<open>
  A directory is the list of its entries, file name and content; the names are distinct.
  Writing a file replaces the entry of that name or adds one.
\<close>

type_synonym 'f directory = "(string \<times> 'f) list"

definition exists :: "'f directory \<Rightarrow> string \<Rightarrow> bool" where
  "exists dir path = (map_of dir path \<noteq> None)"

definition write_file :: "string \<Rightarrow> 'f \<Rightarrow> 'f directory \<Rightarrow> 'f directory" where
  "write_file path content dir = AList.update path content dir"

datatype outfile = Pkl saved | Png string

text \<open>\<open>[_ for _ in sorted(os.listdir(".")) if _.endswith(".fits")]\<close>\<close>

definition filenames :: "'f directory \<Rightarrow> (string \<times> 'f) list" where
  "filenames data_dir = filter (\<lambda>(f, _). endswith f ''.fits'') (sort_key fst data_dir)"

text \<open>
  The loop of lines 197--263. The result is the log directory when the loop ends, and the
  exception that ended it, if one did.
\<close>

fun batch_loop ::
  "externals \<Rightarrow> batch_setup \<Rightarrow> bool \<Rightarrow> outfile directory \<Rightarrow> (string \<times> datafile) list
     \<Rightarrow> outfile directory \<times> error option" where
  "batch_loop ext cfg redo logdir [] = (logdir, None)"
| "batch_loop ext cfg redo logdir ((fname, file) # rest) =
     (let name' = remove_fits fname; output = name' @ ''.pkl''
      in if exists logdir output \<and> \<not> redo then batch_loop ext cfg redo logdir rest
         else case fit_spectrum ext cfg name' file of
                Inl e \<Rightarrow> (logdir, Some e)
              | Inr obj \<Rightarrow>
                  (case plot ext obj of
                     Inl e \<Rightarrow> (logdir, Some e)
                   | Inr png \<Rightarrow>
                       let logdir' = write_file (name' @ ''.png'') (Png png) logdir
                       in (case save obj of
                             Inl e \<Rightarrow> (logdir', Some e)
                           | Inr pkl \<Rightarrow>
                               batch_loop ext cfg redo
                                 (write_file output (Pkl pkl) logdir') rest)))"

definition run_ppxf ::
  "externals \<Rightarrow> template_bank option \<Rightarrow> npfloat option \<Rightarrow> bool \<Rightarrow> int \<Rightarrow> bool \<Rightarrow> kwargs
     \<Rightarrow> datafile directory \<Rightarrow> outfile directory \<Rightarrow> outfile directory \<times> error option" where
  "run_ppxf ext tempfile velscale' redo ncomp' test kw data_dir logdir =
     (case prepare tempfile velscale' ncomp' test kw of
        Inl e \<Rightarrow> (logdir, Some e)
      | Inr cfg \<Rightarrow> batch_loop ext cfg redo logdir (filenames data_dir))"

section \<open>Batch Aggregator (make\_table)\<close>

text \<open>
  A row of the summary table: the name of the spectrum, the first four entries of the
  solution and of its error (velocity, dispersion, \<open>h3\<close>, \<open>h4\<close>), the chi-square, the S/N
  and the two polynomial degrees.
\<close>

record summary_row =
  col_spec :: string
  col_v :: npfloat
  col_verr :: npfloat
  col_sigma :: npfloat
  col_sigmaerr :: npfloat
  col_h3 :: npfloat
  col_h3err :: npfloat
  col_h4 :: npfloat
  col_h4err :: npfloat
  col_chi2 :: npfloat
  col_snr :: npfloat
  col_adegree :: int
  col_mdegree :: int

text \<open>\<open>pickle.load(f)\<close> on a file of the log directory whose name ends with \<open>pkl\<close>.\<close>

definition unpickle :: "outfile \<Rightarrow> error + saved" where
  "unpickle f = (case f of Png _ \<Rightarrow> Inl UnpicklingError | Pkl p \<Rightarrow> Inr p)"

fun load_all :: "outfile list \<Rightarrow> error + saved list" where
  "load_all [] = Inr []"
| "load_all (f # fs) =
     and_then (unpickle f) (\<lambda>p. and_then (load_all fs) (\<lambda>ps. Inr (p # ps)))"

text \<open>
  \<open>pp.sol if pp.ncomp == 1 else pp.sol[0]\<close>, and the same for \<open>pp.error\<close>: the solution and
  the error of the first kinematic component.
\<close>

definition first_component :: "kinematics \<Rightarrow> npfloat list \<times> npfloat list" where
  "first_component k = (case k of Single s e \<Rightarrow> (s, e) | Multiple c _ _ \<Rightarrow> c)"

definition first_sol :: "saved \<Rightarrow> npfloat list" where
  "first_sol p = fst (first_component (sv_solution p))"

definition first_error :: "saved \<Rightarrow> npfloat list" where
  "first_error p = snd (first_component (sv_solution p))"

text \<open>\<open>np.array(vectors)\<close>: the vectors must have one length (ValueError otherwise).\<close>

definition homogeneous :: "npfloat list list \<Rightarrow> error + unit" where
  "homogeneous vs =
     (case vs of
        [] \<Rightarrow> Inr ()
      | v # _ \<Rightarrow> if list_all (\<lambda>u. length u = length v) vs then Inr () else Inl ValueError)"

text \<open>
  \<open>sols[0]\<close> to \<open>sols[3]\<close> on the transposed array: there must be at least one vector, of at
  least four entries (IndexError otherwise).
\<close>

definition four_moments :: "npfloat list list \<Rightarrow> bool" where
  "four_moments vs = (case vs of [] \<Rightarrow> False | v # _ \<Rightarrow> 4 \<le> length v)"

definition row_of :: "saved \<Rightarrow> summary_row" where
  "row_of p =
     \<lparr>col_spec = sv_name p,
      col_v = first_sol p ! 0, col_verr = first_error p ! 0,
      col_sigma = first_sol p ! 1, col_sigmaerr = first_error p ! 1,
      col_h3 = first_sol p ! 2, col_h3err = first_error p ! 2,
      col_h4 = first_sol p ! 3, col_h4err = first_error p ! 3,
      col_chi2 = sv_chi2 p, col_snr = sv_sn p,
      col_adegree = sv_degree p, col_mdegree = sv_mdegree p\<rparr>"

text \<open>
  make\_table: \<open>output\<close> is the content of the summary file, if it exists. The pickles are
  read in the order of their names; the table has one row for each.
\<close>

definition make_table ::
  "npfloat option \<Rightarrow> bool \<Rightarrow> outfile directory \<Rightarrow> summary_row list option
     \<Rightarrow> error + summary_row list option" where
  "make_table velscale' redo logdir output =
     (let velscale' = (case velscale' of None \<Rightarrow> Num 20 | Some v \<Rightarrow> v)
      in and_then (py_int (Some velscale')) (\<lambda>_.
         if output \<noteq> None \<and> \<not> redo then Inr output
         else
           let pkls = sort_key fst (filter (\<lambda>(f, _). endswith f ''pkl'') logdir)
           in and_then (load_all (map snd pkls)) (\<lambda>pps.
              and_then (homogeneous (map first_sol pps)) (\<lambda>_.
              and_then (homogeneous (map first_error pps)) (\<lambda>_.
              if four_moments (map first_sol pps) \<and> four_moments (map first_error pps)
              then Inr (Some (map row_of pps))
              else Inl IndexError)))))"

section \<open>Template Matrix Builder (select\_templates)\<close>

text \<open>
  The template file of the WGS pipeline: the stacked template spectra (extension SSPS), the
  table of the parameters of each template (HDU 1) and the wavelength grid (HDU 2).
\<close>

record ('p, 'g) ssp_file =
  ssp_templates :: "npfloat list list"
  params :: "'p list"
  logwave :: 'g

text \<open>\<open>np.hstack(arrays)\<close>: needs at least one array.\<close>

definition hstack :: "int list list \<Rightarrow> error + int list" where
  "hstack arrs = (if arrs = [] then Inl ValueError else Inr (concat arrs))"

text \<open>\<open>np.unique(a)\<close>: the sorted unique values.\<close>

definition unique :: "int list \<Rightarrow> int list" where
  "unique a = sort (remdups a)"

text \<open>
  \<open>a[idx]\<close> on the first axis with an array of integers: a negative index counts from the
  end, an index out of bounds raises IndexError.
\<close>

definition index_rows :: "'a list \<Rightarrow> int list \<Rightarrow> error + 'a list" where
  "index_rows xs idx =
     (let n = int (length xs)
      in if list_all (\<lambda>i. - n \<le> i \<and> i < n) idx
         then Inr (map (\<lambda>i. xs ! nat (if i < 0 then n + i else i)) idx)
         else Inl IndexError)"

text \<open>
  The files \<open>*weights.fits\<close> of the directory are given by their \<open>idx\<close> columns, in the
  order of the listing; \<open>outfile\<close> is the content of the subsample file, if it exists.
\<close>

definition select_templates ::
  "('p, 'g) ssp_file \<Rightarrow> int list directory \<Rightarrow> bool \<Rightarrow> ('p, 'g) ssp_file option
     \<Rightarrow> error + ('p, 'g) ssp_file option" where
  "select_templates templates_file ppdir redo outfile =
     (if outfile \<noteq> None \<and> \<not> redo then Inr outfile
      else
        let wfiles = filter (\<lambda>(f, _). endswith f ''weights.fits'') ppdir
        in and_then (hstack (map snd wfiles)) (\<lambda>stacked.
           let idx = unique stacked
           in and_then (index_rows (ssp_templates templates_file) idx) (\<lambda>new_templates.
              and_then (index_rows (params templates_file) idx) (\<lambda>newparams.
              Inr (Some \<lparr>ssp_templates = new_templates, params = newparams,
                         logwave = logwave templates_file\<rparr>)))))"

section \<open>Entry point (run\_stellar\_populations)\<close>

definition floats :: "real list \<Rightarrow> pyval" where
  "floats xs = float_array (map Num xs)"

definition bounds1 :: "real \<Rightarrow> real \<Rightarrow> pyval" where
  "bounds1 v0 smax = VList [floats [v0 - 2000, v0 + 2000], floats [3, smax],
                            floats [- 3 / 10, 3 / 10], floats [- 3 / 10, 3 / 10]]"

text \<open>The dictionary \<open>kwargs\<close> of lines 322--340; \<open>None\<close> when no branch assigns it.\<close>

definition stellar_kwargs :: "real \<Rightarrow> npfloat option \<Rightarrow> int \<Rightarrow> kwargs option" where
  "stellar_kwargs v0 velscale' ncomp' =
     (let vs = (case velscale' of None \<Rightarrow> VNone | Some v \<Rightarrow> VFloat v)
      in if ncomp' = 1 then
           Some [''start'' \<mapsto> floats [v0, 50, 0, 0], ''plot'' \<mapsto> VBool False,
                 ''moments'' \<mapsto> VList [VInt 4], ''degree'' \<mapsto> VInt 20, ''mdegree'' \<mapsto> VInt 5,
                 ''reddening'' \<mapsto> VNone, ''clean'' \<mapsto> VBool True,
                 ''bounds'' \<mapsto> bounds1 v0 800, ''velscale'' \<mapsto> vs]
         else if ncomp' = 2 then
           Some [''start'' \<mapsto> VList [floats [v0, 50, 0, 0], floats [v0, 50, 0, 0]],
                 ''plot'' \<mapsto> VBool False, ''moments'' \<mapsto> VList [VInt 4],
                 ''degree'' \<mapsto> VInt 12, ''mdegree'' \<mapsto> VInt 0, ''reddening'' \<mapsto> VNone,
                 ''clean'' \<mapsto> VBool False,
                 ''bounds'' \<mapsto> VList [bounds1 v0 800, bounds1 v0 80], ''velscale'' \<mapsto> vs]
         else None)"

text \<open>
  The call \<open>run_ppxf(galaxy_dir, w1, w2, targetSN, tempfile, redo=redo, ncomp=1, **kwargs)\<close>:
  the entry \<open>velscale\<close> of the dictionary binds the parameter of that name, the other
  entries are the keyword arguments passed on to the fitter.
\<close>

record run_ppxf_args =
  a_velscale :: "npfloat option"
  a_redo :: bool
  a_ncomp :: int
  a_test :: bool
  a_kwargs :: kwargs

definition run_ppxf_invocation ::
  "real \<Rightarrow> npfloat option \<Rightarrow> bool \<Rightarrow> int \<Rightarrow> error + run_ppxf_args" where
  "run_ppxf_invocation v0 velscale' redo ncomp' =
     and_then (py_int velscale') (\<lambda>_.
     case stellar_kwargs v0 velscale' ncomp' of
       None \<Rightarrow> Inl UnboundLocalError
     | Some kw \<Rightarrow>
         Inr \<lparr>a_velscale = (case kw ''velscale'' of Some (VFloat v) \<Rightarrow> Some v | _ \<Rightarrow> None),
              a_redo = redo, a_ncomp = 1, a_test = False,
              a_kwargs = kw(''velscale'' := None)\<rparr>)"

text \<open>
  run\_stellar\_populations: the batch of fits, then the summary table, always rebuilt. The
  state is the log directory and the summary file.
\<close>

definition run_stellar_populations ::
  "externals \<Rightarrow> template_bank option \<Rightarrow> real \<Rightarrow> npfloat option \<Rightarrow> bool \<Rightarrow> int
     \<Rightarrow> datafile directory \<Rightarrow> outfile directory \<times> summary_row list option
     \<Rightarrow> (outfile directory \<times> summary_row list option) \<times> error option" where
  "run_stellar_populations ext tempfile v0 velscale' redo ncomp' data_dir state =
     (case run_ppxf_invocation v0 velscale' redo ncomp' of
        Inl e \<Rightarrow> (state, Some e)
      | Inr a \<Rightarrow>
          (case run_ppxf ext tempfile (a_velscale a) (a_redo a) (a_ncomp a) (a_test a)
                  (a_kwargs a) data_dir (fst state) of
             (logdir, Some e) \<Rightarrow> ((logdir, snd state), Some e)
           | (logdir, None) \<Rightarrow>
               (case make_table velscale' True logdir (snd state) of
                  Inl e \<Rightarrow> ((logdir, snd state), Some e)
                | Inr summary \<Rightarrow> ((logdir, summary), None))))"

section \<open>Example inputs\<close>

text \<open>A spectrum with zero-flux samples at both borders and one in the interior.\<close>

definition example_spectrum :: "sample list" where
  "example_spectrum =
     [\<lparr>wave = Num 1, flux = Num 0, fluxerr = Num 9\<rparr>,
      \<lparr>wave = Num 2, flux = Num 1, fluxerr = Num 0\<rparr>,
      \<lparr>wave = Num 3, flux = Num 0, fluxerr = Num 0\<rparr>,
      \<lparr>wave = Num 4, flux = Num 2, fluxerr = Num 3\<rparr>,
      \<lparr>wave = Num 5, flux = Num 0, fluxerr = Num 0\<rparr>]"


text \<open>A wavelength grid around the sky line at 5577 angstrom, with one NaN pixel.\<close>

definition example_lam :: "npfloat list" where
  "example_lam = [Num 4000, Num 5570, Num 5592, Num 5593, Num (11187 / 2), Num 6300]"

definition example_galaxy :: "npfloat list" where
  "example_galaxy = [Num 1, Num 1, Num 1, NaN, Num 1, Num 1]"

text \<open>
  A solution of one kinematic component: velocity 100, dispersion 50, \<open>h3\<close> and \<open>h4\<close>, and
  their errors.
\<close>

definition example_solution :: kinematics where
  "example_solution = Single [Num 100, Num 50, Num (1 / 10), Num (1 / 5)]
                             [Num 1, Num 2, Num (1 / 100), Num (1 / 50)]"

text \<open>
  A fit of two pixels: one polynomial column, one stellar, one gas and one sky template.
\<close>

definition example_fit :: tagged_fit where
  "example_fit =
     \<lparr>pp = \<lparr>matrix = \<lparr>shape0 = 2, shape1 = 4,
                        rows = [[Num 1, Num 2, Num 3, Num 4], [Num 5, Num 6, Num 7, Num 8]]\<rparr>,
             degree = 0, mdegree = 1,
             polyweights = Some [Num 2], mpolyweights = Some [Num (1 / 2)],
             reddening = None,
             weights = [Num 10, Num 100, Num 1000],
             galaxy = [Num 3, Num 5], bestfit = [Num 3, Num 5], noise = [Num 1, Num 1],
             lam = [Num 5000, Num 5001], goodpixels = [0, 1],
             solution = example_solution, chi2 = Num 1\<rparr>,
      name = ''bin1'', title = ''BIN1'', has_emission = True, dv = Num 0,
      w = [Num 5000, Num 5001], velscale = Num 20, ngas = 1, ntemplates = 1\<rparr>"

text \<open>
  A fit whose model reproduces the data exactly, on a spectrum of median zero.
\<close>

definition flat_fit :: tagged_fit where
  "flat_fit = example_fit\<lparr>pp := (pp example_fit)
     \<lparr>galaxy := [Num (- 1), Num 0, Num 1], bestfit := [Num (- 1), Num 0, Num 1],
      goodpixels := [0, 1, 2]\<rparr>\<rparr>"

text \<open>A fit on a spectrum whose flux is NaN at every good pixel.\<close>

definition nan_fit :: tagged_fit where
  "nan_fit = example_fit\<lparr>pp := (pp example_fit)\<lparr>galaxy := [NaN, NaN]\<rparr>\<rparr>"

text \<open>
  A fit of 26 pixels, the last one not among the good pixels: a flat spectrum at \<open>base\<close>
  with one spike of 25 above it, and a flat model. The median of the flux over the good
  pixels (\<open>base\<close>) differs from its mean (\<open>base + 1\<close>), and the residual has the
  deviation \<open>sqrt 24\<close> before clipping and 0 after it.
\<close>

definition spike_fit :: "real \<Rightarrow> tagged_fit" where
  "spike_fit base = example_fit\<lparr>pp := (pp example_fit)
     \<lparr>galaxy := replicate 24 (Num base) @ [Num (base + 25), Num 1000],
      bestfit := replicate 26 (Num base),
      goodpixels := [0..<25]\<rparr>\<rparr>"

text \<open>
  Stand-ins for the libraries: a rebinning that keeps the samples and places them on a
  grid starting at 20000 angstrom, a fitter that reproduces the data with no template
  column, an extinction of one, the statistics in exact arithmetic and a plot named after
  the spectrum.
\<close>

definition example_ext :: externals where
  "example_ext =
     \<lparr>log_rebin = (\<lambda>range xs v.
        Inr (xs, map (\<lambda>i. Num (ln (20000 * (1 + real i)))) [0..<length xs], v)),
      ppxf = (\<lambda>call.
        Inr \<lparr>matrix = \<lparr>shape0 = length (arg_galaxy call), shape1 = 0,
                         rows = replicate (length (arg_galaxy call)) []\<rparr>,
             degree = - 1, mdegree = 0, polyweights = None, mpolyweights = None,
             reddening = None, weights = [], galaxy = arg_galaxy call,
             bestfit = arg_galaxy call, noise = arg_noise call,
             lam = replicate (length (arg_galaxy call)) (Num 1),
             goodpixels = arange (length (arg_galaxy call)),
             solution = example_solution, chi2 = Num 1\<rparr>),
      reddening_cal00 = (\<lambda>l r. map (\<lambda>_. Num 1) l),
      stats = exact_numerics,
      plot = (\<lambda>p. Inr (name (fit p)))\<rparr>"

text \<open>A template bank of one stellar and one emission template on a two-point grid.\<close>

definition example_bank :: template_bank where
  "example_bank =
     \<lparr>stars = \<lparr>shape0 = 1, shape1 = 2, rows = [[Num 1, Num 2]]\<rparr>,
      emission = \<lparr>shape0 = 1, shape1 = 2, rows = [[Num 0, Num 1]]\<rparr>,
      loglam = [Num 0, Num (ln 100000)]\<rparr>"

definition example_cfg :: batch_setup where
  "example_cfg =
     \<lparr>templates = Some (array_T (stars example_bank)), n_stars = 1, n_gas = 1,
      logwave_temp = loglam example_bank, velscale_kms = Num 20,
      fit_kwargs = [''vsyst'' \<mapsto> VFloat (Num 7),
                    ''component'' \<mapsto> int_array [0]]\<rparr>"

text \<open>The values through which the example spectrum passes under the stand-ins.\<close>

definition example_dv :: npfloat where
  "example_dv = Num (- ln 20000 * c_km_s)"

definition example_call :: ppxf_call where
  "example_call =
     \<lparr>arg_templates = array_T (stars example_bank),
      arg_galaxy = [Num 1, Num 2], arg_noise = [Num 3, Num 3], arg_velscale = Num 20,
      arg_kwargs = (fit_kwargs example_cfg)
        (''lam'' \<mapsto> float_array [Num 20000, Num 40000],
         ''goodpixels'' \<mapsto> int_array [0, 1],
         ''vsyst'' \<mapsto> VFloat example_dv)\<rparr>"

definition example_out :: ppxf_out where
  "example_out =
     \<lparr>matrix = \<lparr>shape0 = 2, shape1 = 0, rows = [[], []]\<rparr>,
      degree = - 1, mdegree = 0, polyweights = None, mpolyweights = None,
      reddening = None, weights = [], galaxy = [Num 1, Num 2],
      bestfit = [Num 1, Num 2], noise = [Num 3, Num 3],
      lam = [Num 1, Num 1], goodpixels = [0, 1],
      solution = example_solution, chi2 = Num 1\<rparr>"

definition example_tagged :: "string \<Rightarrow> tagged_fit" where
  "example_tagged nm =
     \<lparr>pp = example_out, name = nm, title = make_title nm, has_emission = True,
      dv = example_dv, w = [Num 20000, Num 40000], velscale = Num 20,
      ngas = 1, ntemplates = 1\<rparr>"

definition example_obj :: "string \<Rightarrow> pPXF" where
  "example_obj nm =
     \<lparr>fit = example_tagged nm, dw = 125 / 100,
      arrays = \<lparr>apoly = [Num 0, Num 0], mpoly = [Num 1, Num 1], extinction = [Num 1, Num 1],
                star_weights = [], gas_weights = [], sky_weights = [],
                ssps = [Num 0, Num 0], gas = [Num 0, Num 0], bestsky = [Num 0, Num 0]\<rparr>,
      snr = \<lparr>signal = Num (3 / 2), meannoise = Num 0, sn = PInf\<rparr>\<rparr>"

definition example_pkl :: "string \<Rightarrow> saved" where
  "example_pkl nm =
     \<lparr>sv_name = nm, sv_solution = example_solution, sv_chi2 = Num 1, sv_sn = PInf,
      sv_degree = - 1, sv_mdegree = 0,
      sv_table = [(''wave'', [Num 20000, Num 40000]), (''flux'', [Num 1, Num 2]),
                  (''bestfit'', [Num 1, Num 2]), (''ssps'', [Num 0, Num 0]),
                  (''emission'', [Num 0, Num 0]), (''apoly'', [Num 0, Num 0]),
                  (''mpoly'', [Num 1, Num 1]), (''goodpixels'', [Num 1, Num 1]),
                  (''reddening'', [Num 1, Num 1]), (''sky'', [Num 0, Num 0]),
                  (''noise'', [Num 3, Num 3])]\<rparr>"

text \<open>A spectrum of zero flux, a set of keyword arguments and two data directories.\<close>

definition zero_spectrum :: "sample list" where
  "zero_spectrum = [\<lparr>wave = Num 1, flux = Num 0, fluxerr = Num 1\<rparr>,
                    \<lparr>wave = Num 2, flux = Num 0, fluxerr = Num 1\<rparr>]"

definition example_kwargs :: kwargs where
  "example_kwargs = [''vsyst'' \<mapsto> VFloat (Num 7)]"

definition example_dir :: "datafile directory" where
  "example_dir = [(''c.fits'', Table example_spectrum), (''notes.txt'', Unreadable),
                  (''a.fits'', Table example_spectrum), (''b.fits'', Unreadable)]"

definition example_logdir :: "string \<Rightarrow> outfile directory" where
  "example_logdir nm = [(nm @ ''.png'', Png nm), (nm @ ''.pkl'', Pkl (example_pkl nm))]"

text \<open>A data directory of one spectrum and a log directory holding an older output for it.\<close>

definition single_dir :: "datafile directory" where
  "single_dir = [(''a.fits'', Table example_spectrum)]"

definition stale_logdir :: "outfile directory" where
  "stale_logdir = [(''a.pkl'', Pkl (example_pkl ''old''))]"

text \<open>
  A bank of fifty templates, template \<open>i\<close> with flux \<open>i\<close> and parameter \<open>i\<close>, and a directory
  of two fits that used the templates 3, 7 and 12.
\<close>

definition bank50 :: "(nat, unit) ssp_file" where
  "bank50 = \<lparr>ssp_templates = map (\<lambda>i. [Num (real i)]) [0..<50], params = [0..<50],
             logwave = ()\<rparr>"

definition fits_dir :: "int list directory" where
  "fits_dir = [(''bin2_weights.fits'', [12, 3]), (''bin1_weights.fits'', [7, 3]),
               (''bin1.pkl'', [49])]"

text \<open>
  An older subsample file, of one template, and a directory whose fit recorded the last
  template once from the front and once from the end.
\<close>

definition stale_subsample :: "(nat, unit) ssp_file" where
  "stale_subsample = \<lparr>ssp_templates = [[Num 5]], params = [5], logwave = ()\<rparr>"

definition wrap_dir :: "int list directory" where
  "wrap_dir = [(''bin1_weights.fits'', [49, - 1])]"

section \<open>Properties of the Spectrum Loader\<close>













lemma flux_remove_zeros:
  "map flux (remove_zeros data) = filter (\<lambda>x. x \<noteq> Num 0) (map flux data)"
  by (induction data) (auto simp: remove_zeros_def np_ne_def np_eq_def)




text \<open>
  Claim C2. The loader removes every sample whose flux is zero, not only those at the two
  borders: on the example spectrum the interior sample at wavelength 3 is lost, where the
  specification keeps it.
\<close>

theorem interior_zero_flux_dropped:
  "load_spectrum example_spectrum =
     Inr [\<lparr>wave = Num 20000, flux = Num 1, fluxerr = Num 3\<rparr>,
          \<lparr>wave = Num 40000, flux = Num 2, fluxerr = Num 3\<rparr>] \<and>
   map flux (spec_trim_borders example_spectrum) = [Num 1, Num 0, Num 2]"
  by (simp add: load_spectrum_def example_spectrum_def remove_zeros_def np_ne_def np_eq_def
      replace_zero_errors_def np_max_def np_maximum_def isnan_def set_errors_def
      spec_trim_borders_def)


section \<open>Properties of the Bad-Pixel Mask Builder\<close>

lemma intersect1d_sorted_list: "intersect1d a b = sorted_list_of_set (set a \<inter> set b)"
proof -
  have "set a \<inter> set b = set (filter (\<lambda>x. x \<in> set b) a)" by auto
  then have "sorted_list_of_set (set a \<inter> set b) = sort (remdups (filter (\<lambda>x. x \<in> set b) a))"
    by (simp only: sorted_list_of_set_sort_remdups)
  then show ?thesis by (simp add: intersect1d_def)
qed

lemma set_intersect1d: "set (intersect1d a b) = set a \<inter> set b"
  by (auto simp: intersect1d_def)

lemma intersect_all_sorted_list:
  "steps \<noteq> [] \<Longrightarrow>
   intersect_all steps start = sorted_list_of_set (set start \<inter> \<Inter> (set ` set steps))"
proof (induction steps arbitrary: start)
  case Nil
  then show ?case by simp
next
  case (Cons s rest)
  show ?case
  proof (cases "rest = []")
    case True
    then show ?thesis by (simp add: intersect_all_def intersect1d_sorted_list)
  next
    case False
    have "intersect_all (s # rest) start = intersect_all rest (intersect1d start s)"
      by (simp add: intersect_all_def)
    also have "\<dots> = sorted_list_of_set (set (intersect1d start s) \<inter> \<Inter> (set ` set rest))"
      by (rule Cons.IH[OF False])
    also have "set (intersect1d start s) \<inter> \<Inter> (set ` set rest)
               = set start \<inter> \<Inter> (set ` set (s # rest))"
      by (auto simp: set_intersect1d)
    finally show ?thesis .
  qed
qed

lemma make_goodpixels_intersect_all:
  "make_goodpixels wl gal = intersect_all (exclusions wl gal) (arange (length wl))"
  by (simp add: make_goodpixels_def intersect_all_def exclusions_def Let_def fold_map comp_def)

lemma set_argwhere: "set (argwhere p xs) = {i. i < length xs \<and> p (xs ! i)}"
  by (auto simp: argwhere_def)

lemma set_skyline:
  "set (skyline wl L) = {i. i < length wl \<and> \<not> in_window L (wl ! i)}"
  by (auto simp: skyline_def set_argwhere in_window_def)

lemma set_nans: "set (nans gal) = {i. i < length gal \<and> gal ! i \<noteq> NaN}"
  by (auto simp: nans_def set_argwhere isnan_def)

lemma set_make_goodpixels: "set (make_goodpixels wl gal) = spec_goodpixels wl gal"
proof -
  have ne: "exclusions wl gal \<noteq> []" by (simp add: exclusions_def)
  have "set (make_goodpixels wl gal)
        = set (arange (length wl)) \<inter> \<Inter> (set ` set (exclusions wl gal))"
    by (simp only: make_goodpixels_intersect_all intersect_all_sorted_list[OF ne])
       (simp add: arange_def)
  also have "\<dots> = spec_goodpixels wl gal"
    by (auto simp: exclusions_def skylines_def set_skyline set_nans spec_goodpixels_def arange_def)
  finally show ?thesis .
qed

text \<open>
  Claim C4. The good pixels are exactly the positions whose wavelength is outside each of
  the five windows \<open>[L - 15, L + 15]\<close> and whose flux is not NaN; they come sorted and
  without repetition, and intersecting the six exclusions (five sky lines and the NaN
  pixels) in any other order gives the same array.
\<close>

theorem mask_is_window_free_not_nan:
  "set (make_goodpixels wl gal) = spec_goodpixels wl gal \<and>
   sorted (make_goodpixels wl gal) \<and> distinct (make_goodpixels wl gal) \<and>
   (\<forall>steps. mset steps = mset (exclusions wl gal) \<longrightarrow>
      intersect_all steps (arange (length wl)) = make_goodpixels wl gal)"
proof -
  have ne: "exclusions wl gal \<noteq> []" by (simp add: exclusions_def)
  have sl: "make_goodpixels wl gal
      = sorted_list_of_set (set (arange (length wl)) \<inter> \<Inter> (set ` set (exclusions wl gal)))"
    by (simp only: make_goodpixels_intersect_all intersect_all_sorted_list[OF ne])
  have "\<forall>steps. mset steps = mset (exclusions wl gal) \<longrightarrow>
      intersect_all steps (arange (length wl)) = make_goodpixels wl gal"
  proof (intro allI impI)
    fix steps assume m: "mset steps = mset (exclusions wl gal)"
    then have "set steps = set (exclusions wl gal)" by (rule mset_eq_setD)
    moreover from m ne have "steps \<noteq> []" by auto
    ultimately show "intersect_all steps (arange (length wl)) = make_goodpixels wl gal"
      by (simp add: intersect_all_sorted_list sl)
  qed
  moreover have "sorted (make_goodpixels wl gal)" "distinct (make_goodpixels wl gal)"
    by (simp_all add: sl)
  ultimately show ?thesis using set_make_goodpixels by blast
qed

lemma example_mask: "make_goodpixels example_lam example_galaxy = [0, 4]"
  by code_simp


theorem mask_is_window_free_not_nan_witness:
  "set (make_goodpixels example_lam example_galaxy) = spec_goodpixels example_lam example_galaxy \<and>
   make_goodpixels example_lam example_galaxy = [0, 4] \<and>
   intersect_all (rev (exclusions example_lam example_galaxy)) (arange (length example_lam))
     = [0, 4]"
proof -
  have m: "mset (rev (exclusions example_lam example_galaxy))
           = mset (exclusions example_lam example_galaxy)" by simp
  from mask_is_window_free_not_nan[of example_lam example_galaxy] m example_mask
  show ?thesis by metis
qed

section \<open>Properties of the Result Decomposer\<close>

lemma dot_cols:
  "shape1 a = length v \<Longrightarrow> dot a v = Inr (times_vector (rows a) v)"
  by (simp add: dot_def times_vector_def)

text \<open>
  Claim C3. When the design matrix has the columns [polynomial basis (degree + 1) | stellar
  (ntemplates) | gas (ngas) | sky (the rest)] and the weight vector one weight for each
  template column, \<open>calc_arrays\<close> returns, and each component is the product of its range of
  columns with its range of weights; the additive polynomial, the multiplicative polynomial
  and the extinction are computed when their parameters are present and are the constant
  vectors 0, 1 and 1 otherwise.
\<close>

theorem components_from_column_slices:
  fixes self :: tagged_fit
  defines "m \<equiv> matrix (pp self)"
      and "d1 \<equiv> nat (degree (pp self) + 1)"
      and "nt \<equiv> ntemplates self"
      and "ng \<equiv> ngas self"
      and "wts \<equiv> weights (pp self)"
      and "n \<equiv> length (galaxy (pp self))"
  assumes wf: "wf_array2 m"
      and deg: "0 \<le> degree (pp self) + 1"
      and cols: "shape1 m = d1 + nt + ng + nsky"
      and wlen: "length wts = nt + ng + nsky"
      and plen: "\<forall>pw. polyweights (pp self) = Some pw \<longrightarrow> length pw = d1"
  shows "\<exists>c. calc_arrays rc self = Inr c \<and>
           ssps c = times_vector (column_range d1 (d1 + nt) m) (take nt wts) \<and>
           gas c = times_vector (column_range (d1 + nt) (d1 + nt + ng) m) (take ng (drop nt wts)) \<and>
           bestsky c = times_vector (column_range (d1 + nt + ng) (shape1 m) m) (drop (nt + ng) wts) \<and>
           apoly c = (case polyweights (pp self) of
                        Some pw \<Rightarrow> times_vector (column_range 0 d1 m) pw
                      | None \<Rightarrow> replicate n (Num 0)) \<and>
           mpoly c = (case mpolyweights (pp self) of
                        Some mw \<Rightarrow> legval (linspace_m1_1 n) (Num 1 # mw)
                      | None \<Rightarrow> replicate n (Num 1)) \<and>
           extinction c = (case reddening (pp self) of
                             Some r \<Rightarrow> rc (lam (pp self)) r
                           | None \<Rightarrow> replicate n (Num 1))"
proof -
  let ?k = "degree (pp self) + 1"
  have k: "slice_to ?k = take d1" "slice_from ?k = drop d1"
    using deg by (auto simp: slice_to_def slice_from_def d1_def fun_eq_iff)
  have nat_slices: "\<And>j. slice_to (int j) = take j" "\<And>j. slice_from (int j) = drop j"
    by (auto simp: slice_to_def slice_from_def fun_eq_iff)
  let ?mp = "cols_to ?k m"
  let ?m1 = "cols_from ?k m"
  let ?ss = "cols_to (int nt) ?m1"
  let ?m2 = "cols_from (int nt) ?m1"
  let ?gs = "cols_to (int ng) ?m2"
  let ?m3 = "cols_from (int ng) ?m2"
  have m1: "?m1 = m\<lparr>shape1 := nt + ng + nsky, rows := map (drop d1) (rows m)\<rparr>"
    using cols by (simp add: cols_from_def k)
  have m2: "?m2 = m\<lparr>shape1 := ng + nsky, rows := map (drop (d1 + nt)) (rows m)\<rparr>"
    unfolding m1 by (simp add: cols_from_def nat_slices add.commute)
  have m3: "?m3 = m\<lparr>shape1 := nsky, rows := map (drop (d1 + nt + ng)) (rows m)\<rparr>"
    unfolding m2 by (simp add: cols_from_def nat_slices add.commute)
  have s_mp: "shape1 ?mp = d1" and r_mp: "rows ?mp = column_range 0 d1 m"
    using cols by (simp_all add: cols_to_def k column_range_def)
  have s_ss: "shape1 ?ss = nt" and r_ss: "rows ?ss = column_range d1 (d1 + nt) m"
    unfolding m1 by (simp_all add: cols_to_def nat_slices column_range_def)
  have s_gs: "shape1 ?gs = ng" and r_gs: "rows ?gs = column_range (d1 + nt) (d1 + nt + ng) m"
    unfolding m2 by (simp_all add: cols_to_def nat_slices column_range_def)
  have s_m3: "shape1 ?m3 = nsky"
    unfolding m3 by simp
  have "list_all (\<lambda>r. length r = shape1 m) (rows m)" using wf by (simp add: wf_array2_def m_def)
  then have full: "\<forall>r\<in>set (rows m). take (shape1 m - (d1 + nt + ng)) (drop (d1 + nt + ng) r) = drop (d1 + nt + ng) r"
    by (auto simp: list_all_iff)
  have r_m3: "rows ?m3 = column_range (d1 + nt + ng) (shape1 m) m"
    unfolding m3 using full by (simp add: column_range_def)
  have d_ss: "dot ?ss (take nt wts) = Inr (times_vector (column_range d1 (d1 + nt) m) (take nt wts))"
    using dot_cols[of ?ss "take nt wts"] s_ss r_ss wlen by simp
  have d_gs: "dot ?gs (take ng (drop nt wts))
      = Inr (times_vector (column_range (d1 + nt) (d1 + nt + ng) m) (take ng (drop nt wts)))"
    using dot_cols[of ?gs "take ng (drop nt wts)"] s_gs r_gs wlen by simp
  have d_m3: "dot ?m3 (drop ng (drop nt wts))
      = Inr (times_vector (column_range (d1 + nt + ng) (shape1 m) m) (drop (nt + ng) wts))"
    using dot_cols[of ?m3 "drop ng (drop nt wts)"] s_m3 r_m3 wlen by (simp add: add.commute)
  show ?thesis
  proof (cases "polyweights (pp self)")
    case None
    then show ?thesis
      using d_ss d_gs d_m3
      by (simp add: calc_arrays_def Let_def and_then_def nat_slices zeros_like_def ones_like_def
          m_def[symmetric] nt_def[symmetric] ng_def[symmetric] wts_def[symmetric] n_def
          split: option.splits)
  next
    case (Some pw)
    with plen have "length pw = d1" by simp
    then have "dot ?mp pw = Inr (times_vector (column_range 0 d1 m) pw)"
      using dot_cols[of ?mp pw] s_mp r_mp by simp
    then show ?thesis
      using d_ss d_gs d_m3 Some
      by (simp add: calc_arrays_def Let_def and_then_def nat_slices zeros_like_def ones_like_def
          m_def[symmetric] nt_def[symmetric] ng_def[symmetric] wts_def[symmetric] n_def
          split: option.splits)
  qed
qed


theorem components_from_column_slices_witness:
  "\<exists>c. calc_arrays (\<lambda>l r. l) example_fit = Inr c \<and>
       ssps c = [Num 20, Num 60] \<and> gas c = [Num 300, Num 700] \<and>
       bestsky c = [Num 4000, Num 8000] \<and> apoly c = [Num 2, Num 10] \<and>
       mpoly c = [Num (1 / 2), Num (3 / 2)] \<and> extinction c = [Num 1, Num 1]"
proof -
  have h1: "wf_array2 (matrix (pp example_fit))"
    by (simp add: example_fit_def wf_array2_def)
  have h2: "0 \<le> degree (pp example_fit) + 1"
    by (simp add: example_fit_def)
  have h3: "shape1 (matrix (pp example_fit)) =
      nat (degree (pp example_fit) + 1) + ntemplates example_fit + ngas example_fit + 1"
    by (simp add: example_fit_def)
  have h4: "length (weights (pp example_fit)) = ntemplates example_fit + ngas example_fit + 1"
    by (simp add: example_fit_def)
  have h5: "\<forall>pw. polyweights (pp example_fit) = Some pw \<longrightarrow>
      length pw = nat (degree (pp example_fit) + 1)"
    by (simp add: example_fit_def)
  have two: "[0..<2] = [0, Suc 0]" by (simp add: upt_rec)
  from components_from_column_slices[OF h1 h2 h3 h4 h5, of "\<lambda>l r. l"]
  show ?thesis
    by (simp add: example_fit_def times_vector_def column_range_def inner_def np_sum_def
        legval_def legval1_def linspace_m1_1_def two)
qed

section \<open>Properties of the signal-to-noise estimate\<close>

lemma take_idx_ok:
  "\<forall>i\<in>set idx. i < length xs \<Longrightarrow> take_idx xs idx = Inr (map (\<lambda>i. xs ! i) idx)"
  by (simp add: take_idx_def list_all_iff)

lemma np_div_zero: "np_div s (Num 0) = over_zero s"
  by (cases s) (simp_all add: over_zero_def signed_inf_def)

lemma np_div_nan:
  "np_div a b = NaN \<longleftrightarrow>
     a = NaN \<or> b = NaN \<or> (a = Num 0 \<and> b = Num 0) \<or> (a \<in> {PInf, NInf} \<and> b \<in> {PInf, NInf})"
  by (cases a; cases b) (auto simp: signed_inf_def)

text \<open>
  Claim C6, as amended. When the good pixels are positions of the flux and of the best fit,
  the signal is what \<open>np.nanmedian\<close> returns on the flux over the good pixels, the noise
  what \<open>np.nanstd\<close> returns on the 5-sigma-clipped residual (flux minus best fit) over the
  good pixels, and the S/N their IEEE quotient; an exception of \<open>np.nanstd\<close> is not caught.
  There is no guard for a zero noise: the quotient is then \<open>+inf\<close> for a positive signal,
  \<open>-inf\<close> for a negative one and NaN for a signal that is zero or NaN. The S/N is NaN
  exactly when the signal or the noise is NaN, both are zero, or both are infinite.
\<close>

theorem sn_is_ieee_quotient:
  fixes self :: tagged_fit
  defines "gp \<equiv> goodpixels (pp self)"
  defines "g \<equiv> map (\<lambda>i. galaxy (pp self) ! i) gp"
      and "b \<equiv> map (\<lambda>i. bestfit (pp self) ! i) gp"
  assumes gal: "\<forall>i\<in>set gp. i < length (galaxy (pp self))"
      and bf: "\<forall>i\<in>set gp. i < length (bestfit (pp self))"
  shows "calc_sn np self =
           (case nanstd np (sigma_clip np (map (\<lambda>(x, y). np_sub x y) (zip g b)) 5) of
              Inl e \<Rightarrow> Inl e
            | Inr n \<Rightarrow> Inr \<lparr>signal = nanmedian np g, meannoise = n,
                            sn = np_div (nanmedian np g) n\<rparr>) \<and>
         (\<forall>r. calc_sn np self = Inr r \<longrightarrow>
            (meannoise r = Num 0 \<longrightarrow> sn r = over_zero (signal r)) \<and>
            (sn r = NaN \<longleftrightarrow>
               signal r = NaN \<or> meannoise r = NaN \<or>
               (signal r = Num 0 \<and> meannoise r = Num 0) \<or>
               (signal r \<in> {PInf, NInf} \<and> meannoise r \<in> {PInf, NInf})))"
proof -
  let ?n = "nanstd np (sigma_clip np (map (\<lambda>(x, y). np_sub x y) (zip g b)) 5)"
  have eq: "calc_sn np self =
           (case ?n of
              Inl e \<Rightarrow> Inl e
            | Inr n \<Rightarrow> Inr \<lparr>signal = nanmedian np g, meannoise = n,
                            sn = np_div (nanmedian np g) n\<rparr>)"
    using take_idx_ok[OF gal[unfolded gp_def]] take_idx_ok[OF bf[unfolded gp_def]]
    by (simp add: calc_sn_def and_then_def Let_def g_def b_def gp_def split: sum.splits)
  have "\<forall>r. calc_sn np self = Inr r \<longrightarrow>
            (meannoise r = Num 0 \<longrightarrow> sn r = over_zero (signal r)) \<and>
            (sn r = NaN \<longleftrightarrow>
               signal r = NaN \<or> meannoise r = NaN \<or>
               (signal r = Num 0 \<and> meannoise r = Num 0) \<or>
               (signal r \<in> {PInf, NInf} \<and> meannoise r \<in> {PInf, NInf}))"
  proof (intro allI impI)
    fix r assume "calc_sn np self = Inr r"
    with eq obtain n where "r = \<lparr>signal = nanmedian np g, meannoise = n,
                            sn = np_div (nanmedian np g) n\<rparr>"
      by (cases ?n) auto
    then have s: "sn r = np_div (signal r) (meannoise r)" by simp
    show "(meannoise r = Num 0 \<longrightarrow> sn r = over_zero (signal r)) \<and>
            (sn r = NaN \<longleftrightarrow>
               signal r = NaN \<or> meannoise r = NaN \<or>
               (signal r = Num 0 \<and> meannoise r = Num 0) \<or>
               (signal r \<in> {PInf, NInf} \<and> meannoise r \<in> {PInf, NInf}))"
      unfolding s using np_div_nan[of "signal r" "meannoise r"] by (simp add: np_div_zero)
  qed
  with eq show ?thesis by (rule conjI)
qed

lemma finite_values_Num: "finite_values (map Num xs) = xs"
  by (induction xs) (simp_all add: finite_values_def List.map_filter_def)

lemma spike_mean: "mean (replicate 24 0 @ [25]) = 1"
  by (simp add: mean_def sum_list_replicate)

lemma spike_std: "std (replicate 24 0 @ [25]) = sqrt 24"
  by (simp add: std_def spike_mean) (simp add: mean_def sum_list_replicate)

lemma spike_median: "median (replicate 24 0 @ [25 :: real]) = 0"
proof -
  have "sorted (replicate 24 0 @ [25 :: real])" by (simp add: sorted_append)
  then have "sort (replicate 24 0 @ [25 :: real]) = replicate 24 0 @ [25]"
    by (rule sorted_sort_id)
  then show ?thesis by (simp add: median_def nth_append)
qed

lemma flat_stats: "median (replicate 24 (0 :: real)) = 0" "std (replicate 24 0) = 0"
proof -
  have "sorted (replicate 24 (0 :: real))" by simp
  then have "sort (replicate 24 (0 :: real)) = replicate 24 0" by (rule sorted_sort_id)
  then show "median (replicate 24 (0 :: real)) = 0" by (simp add: median_def)
  show "std (replicate 24 0) = 0" by (simp add: std_def mean_def sum_list_replicate)
qed

lemma sqrt24: "sqrt 24 < 5"
  by (rule real_less_lsqrt) simp_all

lemma sigma_clip_iter_stable:
  "\<forall>x\<in>set xs. median xs - s * std xs \<le> x \<and> x \<le> median xs + s * std xs \<Longrightarrow>
   sigma_clip_iter k s xs = xs"
  by (cases k) (simp_all add: Let_def)

lemma spike_clipped: "sigma_clip_iter 5 5 (replicate 24 0 @ [25]) = replicate 24 0"
proof -
  have five: "(5 :: nat) = Suc 4" by simp
  have f: "filter (\<lambda>x. 0 - 5 * sqrt 24 \<le> x \<and> x \<le> 0 + 5 * sqrt 24) (replicate 24 0 @ [25])
           = replicate 24 0"
    using sqrt24 by simp
  have "sigma_clip_iter (Suc 4) 5 (replicate 24 0 @ [25]) = sigma_clip_iter 4 5 (replicate 24 0)"
    by (simp only: sigma_clip_iter.simps Let_def spike_median spike_std f) simp
  also have "sigma_clip_iter 4 5 (replicate 24 0) = replicate 24 0"
    by (rule sigma_clip_iter_stable) (simp add: flat_stats)
  finally show ?thesis by (simp only: five)
qed


lemma take_idx_upt:
  "n \<le> length xs \<Longrightarrow> take_idx xs [0..<n] = Inr (take n xs)"
proof -
  assume n: "n \<le> length xs"
  have "map (\<lambda>i. xs ! i) [0..<n] = take n xs"
    by (rule nth_equalityI) (use n in simp_all)
  with n show ?thesis by (simp add: take_idx_def list_all_iff)
qed

lemma spike_galaxy:
  "take_idx (replicate 24 (Num a) @ [Num (a + 25), Num 1000]) [0..<25]
     = Inr (map Num (replicate 24 a @ [a + 25]))"
  by (simp add: take_idx_upt)

lemma spike_bestfit:
  "take_idx (replicate 26 (Num a)) [0..<25] = Inr (replicate 25 (Num a))"
  by (simp add: take_idx_upt)

lemma replicate_25: "replicate 25 x = replicate 24 x @ [x]"
  using replicate_add[of 24 1 x] by simp

lemma spike_residual:
  "map (\<lambda>(x, y). np_sub x y) (zip (map Num (replicate 24 a @ [a + 25])) (replicate 25 (Num a)))
     = map Num (replicate 24 0 @ [25])"
  unfolding replicate_25 by (simp add: np_sub_def zip_replicate)

lemma spike_signal: "exact_nanmedian (map Num (replicate 24 a @ [a + 25])) = Num a"
proof -
  have "sorted (replicate 24 a @ [a + 25])" by (simp add: sorted_append)
  then have so: "sort (replicate 24 a @ [a + 25]) = replicate 24 a @ [a + 25]"
    by (rule sorted_sort_id)
  have nn: "filter (\<lambda>x. \<not> isnan x) (map Num (replicate 24 a @ [a + 25]))
            = map Num (replicate 24 a @ [a + 25])"
    by (simp add: isnan_def)
  have "np_sort (map Num (replicate 24 a @ [a + 25])) = map Num (replicate 24 a @ [a + 25])"
    unfolding np_sort_def finite_values_Num so by simp
  then show ?thesis
    unfolding exact_nanmedian_def nn by (simp add: Let_def nth_append)
qed

lemma spike_noise:
  "exact_nanstd (exact_sigma_clip (map Num (replicate 24 0 @ [25])) 5) = Inr (Num 0)"
proof -
  have "exact_sigma_clip (map Num (replicate 24 0 @ [25])) 5
        = replicate 24 (Num 0, False) @ [(Num 25, True)]"
    unfolding exact_sigma_clip_def finite_values_Num spike_clipped by (simp add: Let_def)
  then have "unmasked (exact_sigma_clip (map Num (replicate 24 0 @ [25])) 5)
             = map Num (replicate 24 0)"
    by (simp add: unmasked_def)
  then show ?thesis
    unfolding exact_nanstd_def by (simp only: finite_values_Num Let_def) (simp add: flat_stats)
qed

lemma calc_sn_spike:
  "calc_sn exact_numerics (spike_fit a)
     = Inr \<lparr>signal = Num a, meannoise = Num 0, sn = over_zero (Num a)\<rparr>"
proof -
  have g: "take_idx (galaxy (pp (spike_fit a))) (goodpixels (pp (spike_fit a)))
           = Inr (map Num (replicate 24 a @ [a + 25]))"
    unfolding spike_fit_def by (simp only: spike_galaxy[symmetric]) simp
  have b: "take_idx (bestfit (pp (spike_fit a))) (goodpixels (pp (spike_fit a)))
           = Inr (replicate 25 (Num a))"
    unfolding spike_fit_def by (simp only: spike_bestfit[symmetric]) simp
  show ?thesis
    unfolding calc_sn_def g b and_then_def
    by (simp only: sum.case Let_def spike_residual exact_numerics_def numerics.select_convs
        spike_signal spike_noise np_div_zero)
qed


theorem sn_is_ieee_quotient_witness:
  "calc_sn exact_numerics (spike_fit 2) = Inr \<lparr>signal = Num 2, meannoise = Num 0, sn = PInf\<rparr>"
proof -
  have h1: "\<forall>i\<in>set (goodpixels (pp (spike_fit 2))). i < length (galaxy (pp (spike_fit 2)))"
    by (simp add: spike_fit_def)
  have h2: "\<forall>i\<in>set (goodpixels (pp (spike_fit 2))). i < length (bestfit (pp (spike_fit 2)))"
    by (simp add: spike_fit_def)
  from calc_sn_spike[of 2] obtain r where
    r: "calc_sn exact_numerics (spike_fit 2) = Inr r" "signal r = Num 2" "meannoise r = Num 0"
    by simp
  from sn_is_ieee_quotient[OF h1 h2, of exact_numerics] r(1)
  have "meannoise r = Num 0 \<longrightarrow> sn r = over_zero (signal r)" by blast
  with r(2,3) have "sn r = PInf" by (simp add: over_zero_def)
  with r(2,3) have "r = \<lparr>signal = Num 2, meannoise = Num 0, sn = PInf\<rparr>" by (cases r) simp
  with r(1) show ?thesis by simp
qed

lemma std_zeros: "std [0, 0, 0] = 0" "median [0, 0, 0] = 0"
  by (simp_all add: std_def mean_def median_def)

lemma clip_zeros: "sigma_clip_iter 5 5 [0, 0, 0] = [0, 0, 0]"
  by (rule sigma_clip_iter_stable) (simp add: std_zeros)

text \<open>
  Claim C6 as stated fails: a noiseless residual on a spectrum of median zero gives the
  S/N \<open>0 / 0\<close>, which is NaN. So does a spectrum of zero flux with one spike, fitted by zero:
  the median is zero and the spike is clipped from the residual. In both the residual
  that is left is identically zero, so its deviation is zero whatever the rounding.
\<close>

theorem sn_zero_noise_nan_counterexample:
  "calc_sn exact_numerics flat_fit = Inr \<lparr>signal = Num 0, meannoise = Num 0, sn = NaN\<rparr> \<and>
   calc_sn exact_numerics (spike_fit 0) = Inr \<lparr>signal = Num 0, meannoise = Num 0, sn = NaN\<rparr>"
proof
  show "calc_sn exact_numerics flat_fit = Inr \<lparr>signal = Num 0, meannoise = Num 0, sn = NaN\<rparr>"
    by (simp add: flat_fit_def example_fit_def calc_sn_def and_then_def take_idx_def Let_def
        exact_numerics_def exact_nanmedian_def np_sort_def finite_values_def
        List.map_filter_def isnan_def np_sub_def exact_sigma_clip_def clip_zeros std_zeros
        exact_nanstd_def unmasked_def numeral_3_eq_3)
  show "calc_sn exact_numerics (spike_fit 0)
        = Inr \<lparr>signal = Num 0, meannoise = Num 0, sn = NaN\<rparr>"
    by (simp add: calc_sn_spike over_zero_def)
qed

text \<open>
  An exception of the library is not caught either: on a flux that is NaN at every good
  pixel the whole residual is masked and the deviation raises.
\<close>

lemma calc_sn_all_nan: "calc_sn exact_numerics nan_fit = Inl ValueError"
  by (simp add: nan_fit_def example_fit_def calc_sn_def and_then_def take_idx_def Let_def
      exact_numerics_def np_sub_def exact_sigma_clip_def finite_values_def
      List.map_filter_def exact_nanstd_def unmasked_def)

lemma std_zeros2: "std [0, 0] = 0" "median [0, 0] = 0"
  by (simp_all add: std_def mean_def median_def)

lemma clip_zeros2: "sigma_clip_iter 5 5 [0, 0] = [0, 0]"
  by (rule sigma_clip_iter_stable) (simp add: std_zeros2)

section \<open>Properties of the call of the fitter\<close>

lemma item_first_Cons: "item_first (x # xs) = Inr x"
  by (simp add: item_first_def)

lemma rebin_has_template_grid:
  "rebin_spectrum ext cfg file = Inr r \<Longrightarrow> \<exists>l0 ls. logwave_temp cfg = l0 # ls"
  by (cases "logwave_temp cfg")
     (auto simp: rebin_spectrum_def and_then_def item_first_def
           split: datafile.splits sum.splits)

text \<open>
  Claim C8. For a spectrum that was rebinned, with \<open>ll0\<close> the first log-wavelength of the
  data and \<open>l0\<close> the first log-wavelength of the templates, the velocity offset is
  \<open>(l0 - ll0) * c\<close> with \<open>c\<close> in km/s, and the fitter is called with exactly this value under
  the keyword \<open>vsyst\<close>, whatever the caller had put there.
\<close>

theorem vsyst_is_velocity_offset:
  assumes rebin: "rebin_spectrum ext cfg file = Inr (gal, ll0 # lls, nse)"
      and tm: "templates cfg = Some tm"
  shows "\<exists>l0 call wl.
           item_first (logwave_temp cfg) = Inr l0 \<and>
           prepare_call ext cfg file = Inr (call, np_mul (np_sub l0 ll0) (Num c_km_s), wl) \<and>
           arg_kwargs call ''vsyst'' = Some (VFloat (np_mul (np_sub l0 ll0) (Num c_km_s))) \<and>
           (\<forall>a b. l0 = Num a \<and> ll0 = Num b \<longrightarrow>
              arg_kwargs call ''vsyst'' = Some (VFloat (Num ((a - b) * c_km_s)))) \<and>
           fit_spectrum ext cfg nm file =
             and_then (ppxf ext call) (\<lambda>out.
               pPXF_init (reddening_cal00 ext) (stats ext)
                 \<lparr>pp = out, name = nm, title = make_title nm, has_emission = True,
                  dv = np_mul (np_sub l0 ll0) (Num c_km_s), w = wl,
                  velscale = velscale_kms cfg, ngas = n_gas cfg, ntemplates = n_stars cfg\<rparr>)"
proof -
  from rebin_has_template_grid[OF rebin] obtain l0 ls where l: "logwave_temp cfg = l0 # ls"
    by blast
  let ?dv = "np_mul (np_sub l0 ll0) (Num c_km_s)"
  let ?wl = "map np_exp (ll0 # lls)"
  let ?kw = "(fit_kwargs cfg)(''lam'' \<mapsto> float_array ?wl,
               ''goodpixels'' \<mapsto> int_array (map int (make_goodpixels ?wl gal)),
               ''vsyst'' \<mapsto> VFloat ?dv)"
  let ?call = "\<lparr>arg_templates = tm, arg_galaxy = gal, arg_noise = nse,
                arg_velscale = velscale_kms cfg, arg_kwargs = ?kw\<rparr>"
  have pc: "prepare_call ext cfg file = Inr (?call, ?dv, ?wl)"
    by (simp add: prepare_call_def rebin and_then_def l item_first_Cons tm Let_def)
  have f1: "item_first (logwave_temp cfg) = Inr l0" by (simp add: l item_first_Cons)
  have fs: "fit_spectrum ext cfg nm file =
             and_then (ppxf ext ?call) (\<lambda>out.
               pPXF_init (reddening_cal00 ext) (stats ext)
                 \<lparr>pp = out, name = nm, title = make_title nm, has_emission = True,
                  dv = ?dv, w = ?wl,
                  velscale = velscale_kms cfg, ngas = n_gas cfg, ntemplates = n_stars cfg\<rparr>)"
    by (simp add: fit_spectrum_def pc and_then_def)
  have kv: "arg_kwargs ?call ''vsyst'' = Some (VFloat ?dv)" by simp
  have kr: "\<forall>a b. l0 = Num a \<and> ll0 = Num b \<longrightarrow>
              arg_kwargs ?call ''vsyst'' = Some (VFloat (Num ((a - b) * c_km_s)))"
    by (simp add: np_sub_def)
  show ?thesis
    by (rule exI[of _ l0], rule exI[of _ ?call], rule exI[of _ ?wl]) (intro conjI; fact)
qed

lemma load_example:
  "load_spectrum example_spectrum =
     Inr [\<lparr>wave = Num 20000, flux = Num 1, fluxerr = Num 3\<rparr>,
          \<lparr>wave = Num 40000, flux = Num 2, fluxerr = Num 3\<rparr>]"
  by (simp add: load_spectrum_def example_spectrum_def remove_zeros_def np_ne_def np_eq_def
      replace_zero_errors_def np_max_def np_maximum_def isnan_def set_errors_def)

lemma rebin_example:
  "rebin_spectrum example_ext example_cfg (Table example_spectrum)
     = Inr ([Num 1, Num 2], [Num (ln 20000), Num (ln 40000)], [Num 3, Num 3])"
  by (simp add: rebin_spectrum_def load_example and_then_def example_cfg_def example_bank_def
      item_first_def item_last_def np_gt_def example_ext_def upt_rec)

theorem vsyst_is_velocity_offset_witness:
  "\<exists>call wl.
     prepare_call example_ext example_cfg (Table example_spectrum)
       = Inr (call, Num (- ln 20000 * c_km_s), wl) \<and>
     arg_kwargs call ''vsyst'' = Some (VFloat (Num (- ln 20000 * c_km_s)))"
proof -
  have tm: "templates example_cfg = Some (array_T (stars example_bank))"
    by (simp add: example_cfg_def)
  from vsyst_is_velocity_offset[OF rebin_example tm, of "''bin''"]
  show ?thesis
    by (auto simp: example_cfg_def example_bank_def item_first_def np_sub_def)
qed

section \<open>Properties of the batch loop\<close>

lemma upt2: "[0..<2] = [0, Suc 0]" by (simp add: upt_rec)

lemma example_cfg_fields:
  "templates example_cfg = Some (array_T (stars example_bank))"
  "logwave_temp example_cfg = [Num 0, Num (ln 100000)]"
  "velscale_kms example_cfg = Num 20" "n_stars example_cfg = 1" "n_gas example_cfg = 1"
  by (simp_all add: example_cfg_def example_bank_def)

lemma example_grid_mask: "make_goodpixels [Num 20000, Num 40000] [Num 1, Num 2] = [0, 1]"
  by code_simp

lemma prepare_call_example:
  "prepare_call example_ext example_cfg (Table example_spectrum)
     = Inr (example_call, example_dv, [Num 20000, Num 40000])"
  by (simp add: prepare_call_def rebin_example and_then_def example_cfg_fields
      item_first_def np_sub_def Let_def example_grid_mask example_call_def example_dv_def)

lemma example_stats: "stats example_ext = exact_numerics"
  by (simp add: example_ext_def)

lemma ppxf_example: "ppxf example_ext example_call = Inr example_out"
  by (simp add: example_ext_def example_call_def example_out_def arange_def upt2)

lemma calc_arrays_example:
  "calc_arrays rc (example_tagged nm) = Inr (arrays (example_obj nm))"
  by (simp add: calc_arrays_def example_tagged_def example_out_def example_obj_def Let_def
      and_then_def cols_to_def cols_from_def slice_to_def slice_from_def dot_def
      zeros_like_def ones_like_def inner_def np_sum_def)

lemma calc_sn_example:
  "calc_sn exact_numerics (example_tagged nm) = Inr (snr (example_obj nm))"
  by (simp add: calc_sn_def example_tagged_def example_out_def example_obj_def Let_def
      and_then_def take_idx_def exact_numerics_def exact_nanmedian_def np_sort_def
      finite_values_def List.map_filter_def isnan_def np_sub_def exact_sigma_clip_def
      clip_zeros2 std_zeros2 exact_nanstd_def unmasked_def numeral_2_eq_2 signed_inf_def)

lemma pPXF_init_example:
  "pPXF_init rc exact_numerics (example_tagged nm) = Inr (example_obj nm)"
  by (simp add: pPXF_init_def calc_arrays_example calc_sn_example and_then_def example_obj_def)

lemma fit_spectrum_example:
  "fit_spectrum example_ext example_cfg nm (Table example_spectrum) = Inr (example_obj nm)"
proof -
  have "fit_spectrum example_ext example_cfg nm (Table example_spectrum)
        = pPXF_init (reddening_cal00 example_ext) exact_numerics (example_tagged nm)"
    by (simp add: fit_spectrum_def prepare_call_example ppxf_example and_then_def
        example_cfg_fields example_tagged_def example_stats)
  then show ?thesis by (simp only: pPXF_init_example)
qed

lemma plot_example: "plot example_ext (example_obj nm) = Inr nm"
  by (simp add: example_ext_def example_obj_def example_tagged_def)

lemma save_example: "save (example_obj nm) = Inr (example_pkl nm)"
  by (simp add: save_def example_obj_def example_tagged_def example_out_def example_pkl_def
      Let_def goodpixel_flags_def arange_def upt2 broadcast_def)


lemma exists_write: "exists (write_file p c l) q = (q = p \<or> exists l q)"
  by (auto simp: exists_def write_file_def update_conv')

lemma map_of_write: "map_of (write_file p c l) q = (if q = p then Some c else map_of l q)"
  by (simp add: write_file_def update_conv')

lemma write_twice: "write_file p c (write_file p c l) = write_file p c l"
  by (simp add: write_file_def)

lemma png_not_pkl: "n @ ''.png'' \<noteq> m @ ''.pkl''"
proof
  assume "n @ ''.png'' = m @ ''.pkl''"
  then have "last (n @ ''.png'') = last (m @ ''.pkl'')" by simp
  then show False by simp
qed

lemma batch_loop_exists_mono:
  "batch_loop ext cfg redo l files = (l', r) \<Longrightarrow> exists l p \<Longrightarrow> exists l' p"
proof (induction files arbitrary: l)
  case Nil
  then show ?case by simp
next
  case (Cons x files)
  obtain f fl where x: "x = (f, fl)" by (cases x)
  from Cons.prems Cons.IH show ?case
    unfolding x
    by (auto simp: Let_def exists_write split: if_splits sum.splits)
qed

lemma batch_loop_append:
  "batch_loop ext cfg redo l (xs @ ys) =
     (case batch_loop ext cfg redo l xs of
        (l1, None) \<Rightarrow> batch_loop ext cfg redo l1 ys
      | (l1, Some e) \<Rightarrow> (l1, Some e))"
proof (induction xs arbitrary: l)
  case Nil
  then show ?case by simp
next
  case (Cons x xs)
  obtain f fl where x: "x = (f, fl)" by (cases x)
  show ?case unfolding x using Cons.IH
    by (cases redo) (auto simp: Let_def split: sum.splits)
qed

lemma batch_loop_idempotent:
  "batch_loop ext cfg False l files = (l', r) \<Longrightarrow> batch_loop ext cfg False l' files = (l', r)"
proof (induction files arbitrary: l)
  case Nil
  then show ?case by simp
next
  case (Cons x files)
  obtain f fl where x: "x = (f, fl)" by (cases x)
  let ?out = "remove_fits f @ ''.pkl''"
  let ?png = "remove_fits f @ ''.png''"
  show ?case
  proof (cases "exists l ?out")
    case True
    with Cons.prems have run: "batch_loop ext cfg False l files = (l', r)"
      by (simp add: x Let_def)
    from batch_loop_exists_mono[OF run True] have "exists l' ?out" .
    with Cons.IH[OF run] show ?thesis by (simp add: x Let_def)
  next
    case False
    show ?thesis
    proof (cases "fit_spectrum ext cfg (remove_fits f) fl")
      case (Inl e)
      with Cons.prems False show ?thesis by (simp add: x Let_def)
    next
      case (Inr obj)
      note fit = this
      show ?thesis
      proof (cases "plot ext obj")
        case (Inl e)
        with Cons.prems False fit show ?thesis by (simp add: x Let_def)
      next
        case (Inr png)
        note plt = this
        let ?l1 = "write_file ?png (Png png) l"
        have no: "\<not> exists ?l1 ?out" using False png_not_pkl[of "remove_fits f" "remove_fits f"]
          by (auto simp: exists_write)
        show ?thesis
        proof (cases "save obj")
          case (Inl e)
          with Cons.prems False fit plt have "l' = ?l1" "r = Some e" by (simp_all add: x Let_def)
          with no fit plt Inl show ?thesis by (simp add: x Let_def write_twice)
        next
          case (Inr pkl)
          let ?l2 = "write_file ?out (Pkl pkl) ?l1"
          from Cons.prems False fit plt Inr
          have run: "batch_loop ext cfg False ?l2 files = (l', r)" by (simp add: x Let_def)
          have "exists ?l2 ?out" by (simp add: exists_write)
          from batch_loop_exists_mono[OF run this] have "exists l' ?out" .
          with Cons.IH[OF run] show ?thesis by (simp add: x Let_def)
        qed
      qed
    qed
  qed
qed


lemma batch_loop_other_pkl:
  "batch_loop ext cfg redo l files = (l', r) \<Longrightarrow>
   n \<notin> (\<lambda>x. remove_fits (fst x)) ` set files \<Longrightarrow>
   map_of l' (n @ ''.pkl'') = map_of l (n @ ''.pkl'')"
proof (induction files arbitrary: l)
  case Nil
  then show ?case by simp
next
  case (Cons x files)
  obtain f fl where x: "x = (f, fl)" by (cases x)
  from Cons.prems(2) have n: "n \<noteq> remove_fits f" "n \<notin> (\<lambda>x. remove_fits (fst x)) ` set files"
    by (auto simp: x)
  have png: "n @ ''.pkl'' \<noteq> remove_fits f @ ''.png''"
    using png_not_pkl[of "remove_fits f" n] by auto
  from Cons.prems(1) Cons.IH[OF _ n(2)] n(1) png show ?case
    unfolding x
    by (auto simp: Let_def map_of_write split: if_splits sum.splits)
qed

lemma batch_loop_redo_outputs:
  "batch_loop ext cfg True l files = (l', None) \<Longrightarrow>
   distinct (map (\<lambda>x. remove_fits (fst x)) files) \<Longrightarrow>
   (f, fl) \<in> set files \<Longrightarrow>
   \<exists>obj pkl. fit_spectrum ext cfg (remove_fits f) fl = Inr obj \<and> save obj = Inr pkl \<and>
             map_of l' (remove_fits f @ ''.pkl'') = Some (Pkl pkl)"
proof (induction files arbitrary: l)
  case Nil
  then show ?case by simp
next
  case (Cons x files)
  obtain g gl where x: "x = (g, gl)" by (cases x)
  let ?out = "remove_fits g @ ''.pkl''"
  let ?png = "remove_fits g @ ''.png''"
  from Cons.prems(1) obtain obj png pkl where
    fit: "fit_spectrum ext cfg (remove_fits g) gl = Inr obj" and
    plt: "plot ext obj = Inr png" and sv: "save obj = Inr pkl" and
    run: "batch_loop ext cfg True (write_file ?out (Pkl pkl) (write_file ?png (Png png) l)) files
          = (l', None)"
    unfolding x by (auto simp: Let_def split: sum.splits)
  from Cons.prems(2) have d: "remove_fits g \<notin> (\<lambda>x. remove_fits (fst x)) ` set files"
    "distinct (map (\<lambda>x. remove_fits (fst x)) files)" by (auto simp: x)
  show ?case
  proof (cases "(f, fl) = (g, gl)")
    case True
    from batch_loop_other_pkl[OF run d(1)] have "map_of l' ?out = Some (Pkl pkl)"
      by (simp add: map_of_write)
    with fit sv True show ?thesis by auto
  next
    case False
    with Cons.prems(3) have "(f, fl) \<in> set files" by (auto simp: x)
    from Cons.IH[OF run d(2) this] show ?thesis .
  qed
qed

lemma prepare_example:
  "prepare (Some example_bank) (Some (Num 20)) 1 False example_kwargs = Inr example_cfg"
  by (simp add: prepare_def set_components_def and_then_def py_int_def example_cfg_def
      example_kwargs_def example_bank_def)

lemma filenames_example:
  "filenames example_dir = [(''a.fits'', Table example_spectrum), (''b.fits'', Unreadable),
                            (''c.fits'', Table example_spectrum)]"
  by (simp add: filenames_def example_dir_def endswith_def)


lemma batch_loop_example:
  "batch_loop example_ext example_cfg redo [] [(''a.fits'', Table example_spectrum)]
     = (example_logdir ''a'', None)"
  "batch_loop example_ext example_cfg redo [] [(''b.fits'', Table example_spectrum)]
     = (example_logdir ''b'', None)"
  by (simp_all add: Let_def exists_def fit_spectrum_example plot_example save_example
      write_file_def example_logdir_def)

text \<open>
  Claim C1, as amended. The loop catches nothing. When the fit of a spectrum raises,
  whatever the exception (an unreadable file, a spectrum left empty, a failure of the
  fitter), run\_ppxf ends there with that exception: the log directory is the one left by
  the spectra before it, whose outputs are intact, and no later spectrum is processed.
\<close>

theorem exception_aborts_batch:
  assumes prep: "prepare tempfile vs nc test kw = Inr cfg"
      and files: "filenames data_dir = before @ (fname, fl) # rest"
      and before: "batch_loop ext cfg redo logdir before = (logdir1, None)"
      and due: "redo \<or> \<not> exists logdir1 (remove_fits fname @ ''.pkl'')"
      and fails: "fit_spectrum ext cfg (remove_fits fname) fl = Inl e"
  shows "run_ppxf ext tempfile vs redo nc test kw data_dir logdir = (logdir1, Some e)"
proof -
  have "batch_loop ext cfg redo logdir1 ((fname, fl) # rest) = (logdir1, Some e)"
    using due fails by (auto simp: Let_def)
  then have "batch_loop ext cfg redo logdir (before @ (fname, fl) # rest) = (logdir1, Some e)"
    by (simp add: batch_loop_append before)
  then show ?thesis by (simp add: run_ppxf_def prep files)
qed

theorem exception_aborts_batch_witness:
  "run_ppxf example_ext (Some example_bank) (Some (Num 20)) False 1 False example_kwargs
     example_dir [] = (example_logdir ''a'', Some IOError)"
proof -
  have files: "filenames example_dir =
      [(''a.fits'', Table example_spectrum)] @ (''b.fits'', Unreadable)
        # [(''c.fits'', Table example_spectrum)]"
    by (simp add: filenames_example)
  have due: "False \<or> \<not> exists (example_logdir ''a'') (remove_fits ''b.fits'' @ ''.pkl'')"
    by (simp add: exists_def example_logdir_def)
  have fails: "fit_spectrum example_ext example_cfg (remove_fits ''b.fits'') Unreadable
      = Inl IOError"
    by (simp add: fit_spectrum_def prepare_call_def rebin_spectrum_def and_then_def)
  from exception_aborts_batch[OF prepare_example files batch_loop_example(1) due fails]
  show ?thesis .
qed

text \<open>
  Claim C1 as stated fails: the first spectrum has zero flux everywhere, the loader raises
  ValueError on the empty array, and the batch ends without the output of the second
  spectrum, which is fitted without error when it is alone.
\<close>

theorem data_error_not_caught_counterexample:
  "run_ppxf example_ext (Some example_bank) (Some (Num 20)) False 1 False example_kwargs
     [(''a.fits'', Table zero_spectrum), (''b.fits'', Table example_spectrum)] []
     = ([], Some ValueError) \<and>
   run_ppxf example_ext (Some example_bank) (Some (Num 20)) False 1 False example_kwargs
     [(''b.fits'', Table example_spectrum)] []
     = (example_logdir ''b'', None)"
proof -
  have "load_spectrum zero_spectrum = Inl ValueError"
    by (simp add: load_spectrum_def zero_spectrum_def remove_zeros_def np_ne_def np_eq_def
        replace_zero_errors_def np_max_def)
  then have "fit_spectrum example_ext example_cfg nm (Table zero_spectrum) = Inl ValueError" for nm
    by (simp add: fit_spectrum_def prepare_call_def rebin_spectrum_def and_then_def)
  then have first: "run_ppxf example_ext (Some example_bank) (Some (Num 20)) False 1 False
      example_kwargs [(''a.fits'', Table zero_spectrum), (''b.fits'', Table example_spectrum)] []
      = ([], Some ValueError)"
    by (simp add: run_ppxf_def prepare_example filenames_def endswith_def Let_def exists_def)
  have alone: "filenames [(''b.fits'', Table example_spectrum)]
      = [(''b.fits'', Table example_spectrum)]"
    by (simp add: filenames_def endswith_def)
  have second: "run_ppxf example_ext (Some example_bank) (Some (Num 20)) False 1 False
      example_kwargs [(''b.fits'', Table example_spectrum)] [] = (example_logdir ''b'', None)"
    by (simp only: run_ppxf_def prepare_example alone batch_loop_example sum.case)
  from first second show ?thesis by (rule conjI)
qed

section \<open>Properties of the redo flag\<close>

lemma run_ppxf_idempotent:
  "run_ppxf ext tf vs False nc test kw data_dir logdir = (logdir', r) \<Longrightarrow>
   run_ppxf ext tf vs False nc test kw data_dir logdir' = (logdir', r)"
  by (cases "prepare tf vs nc test kw")
     (auto simp: run_ppxf_def dest: batch_loop_idempotent)

lemma run_ppxf_redo_outputs:
  assumes run: "run_ppxf ext tf vs True nc test kw data_dir logdir = (logdir2, None)"
      and names: "distinct (map (\<lambda>x. remove_fits (fst x)) (filenames data_dir))"
      and mem: "(f, d) \<in> set (filenames data_dir)"
  shows "\<exists>cfg obj pkl. prepare tf vs nc test kw = Inr cfg \<and>
           fit_spectrum ext cfg (remove_fits f) d = Inr obj \<and> save obj = Inr pkl \<and>
           map_of logdir2 (remove_fits f @ ''.pkl'') = Some (Pkl pkl)"
proof (cases "prepare tf vs nc test kw")
  case (Inl e)
  with run show ?thesis by (simp add: run_ppxf_def)
next
  case (Inr cfg)
  with run have "batch_loop ext cfg True logdir (filenames data_dir) = (logdir2, None)"
    by (simp add: run_ppxf_def)
  from batch_loop_redo_outputs[OF this names mem] Inr show ?thesis by blast
qed

lemma make_table_gate:
  "py_int (Some (case vs of None \<Rightarrow> Num 20 | Some v \<Rightarrow> v)) = Inr k \<Longrightarrow>
   make_table vs False logdir (Some t) = Inr (Some t) \<and>
   make_table vs True logdir (Some t) = make_table vs True logdir None"
  by (simp add: make_table_def and_then_def Let_def)

lemma load_all_pickles: "load_all (map Pkl ps) = Inr ps"
  by (induction ps) (simp_all add: unpickle_def and_then_def)

lemma homogeneous_same:
  "\<forall>v\<in>set vs. length v = m \<Longrightarrow> homogeneous vs = Inr ()"
  by (cases vs) (simp_all add: homogeneous_def list_all_iff)

lemma four_moments_same:
  "vs \<noteq> [] \<Longrightarrow> \<forall>v\<in>set vs. length v = m \<Longrightarrow> 4 \<le> m \<Longrightarrow> four_moments vs"
  by (cases vs) (simp_all add: four_moments_def)

lemma make_table_rebuild:
  assumes k: "py_int (Some (case vs of None \<Rightarrow> Num 20 | Some v \<Rightarrow> v)) = Inr k"
      and pk: "map snd (sort_key fst (filter (\<lambda>(f, _). endswith f ''pkl'') logdir)) = map Pkl ps"
      and ne: "ps \<noteq> []"
      and len: "\<forall>p\<in>set ps. length (first_sol p) = m \<and> length (first_error p) = m'"
      and m: "4 \<le> m" "4 \<le> m'"
  shows "make_table vs True logdir out = Inr (Some (map row_of ps))"
proof -
  from len have s: "\<forall>v\<in>set (map first_sol ps). length v = m"
    and e: "\<forall>v\<in>set (map first_error ps). length v = m'" by auto
  from ne have ne': "map first_sol ps \<noteq> []" "map first_error ps \<noteq> []" by simp_all
  show ?thesis
    by (simp add: make_table_def k pk load_all_pickles and_then_def Let_def
        homogeneous_same[OF s] homogeneous_same[OF e]
        four_moments_same[OF ne'(1) s m(1)] four_moments_same[OF ne'(2) e m(2)])
qed

text \<open>
  Claim C5. With \<open>redo\<close> false a spectrum whose output exists is skipped and nothing is
  written for it; a second run of run\_ppxf on the directory left by a first one leaves it
  as it is (and ends as the first did); with \<open>redo\<close> true every spectrum is fitted again
  and its output holds the new fit, whatever was there before. The aggregator likewise
  leaves an existing summary alone when \<open>redo\<close> is false, and rebuilds it from the log
  directory alone when \<open>redo\<close> is true: whatever summary was there, the one written has
  one row for each pickle of the log directory, in the order of the file names, holding the
  name, the first four moments of the first component and their errors, the chi-square,
  the S/N and the two degrees of that pickle.
\<close>

theorem redo_gate:
  "(exists logdir (remove_fits fname @ ''.pkl'') \<longrightarrow>
      batch_loop ext cfg False logdir ((fname, fl) # rest)
        = batch_loop ext cfg False logdir rest) \<and>
   (run_ppxf ext tf vs False nc test kw data_dir logdir = (logdir1, r) \<longrightarrow>
      run_ppxf ext tf vs False nc test kw data_dir logdir1 = (logdir1, r)) \<and>
   (run_ppxf ext tf vs True nc test kw data_dir logdir = (logdir2, None) \<and>
    distinct (map (\<lambda>x. remove_fits (fst x)) (filenames data_dir)) \<longrightarrow>
      (\<forall>(f, d) \<in> set (filenames data_dir). \<exists>cfg obj pkl.
          prepare tf vs nc test kw = Inr cfg \<and>
          fit_spectrum ext cfg (remove_fits f) d = Inr obj \<and> save obj = Inr pkl \<and>
          map_of logdir2 (remove_fits f @ ''.pkl'') = Some (Pkl pkl))) \<and>
   (py_int (Some (case vs of None \<Rightarrow> Num 20 | Some v \<Rightarrow> v)) = Inr k \<longrightarrow>
      make_table vs False logdir (Some t) = Inr (Some t) \<and>
      make_table vs True logdir (Some t) = make_table vs True logdir None) \<and>
   (py_int (Some (case vs of None \<Rightarrow> Num 20 | Some v \<Rightarrow> v)) = Inr k \<and>
    map snd (sort_key fst (filter (\<lambda>(f, _). endswith f ''pkl'') logdir)) = map Pkl ps \<and>
    ps \<noteq> [] \<and>
    (\<forall>p\<in>set ps. length (first_sol p) = m \<and> length (first_error p) = m') \<and>
    4 \<le> m \<and> 4 \<le> m' \<longrightarrow>
      make_table vs True logdir out = Inr (Some (map row_of ps)))"
proof (intro conjI impI)
  assume "exists logdir (remove_fits fname @ ''.pkl'')"
  then show "batch_loop ext cfg False logdir ((fname, fl) # rest)
        = batch_loop ext cfg False logdir rest"
    by (simp add: Let_def)
next
  assume "run_ppxf ext tf vs False nc test kw data_dir logdir = (logdir1, r)"
  then show "run_ppxf ext tf vs False nc test kw data_dir logdir1 = (logdir1, r)"
    by (rule run_ppxf_idempotent)
next
  assume a: "run_ppxf ext tf vs True nc test kw data_dir logdir = (logdir2, None) \<and>
    distinct (map (\<lambda>x. remove_fits (fst x)) (filenames data_dir))"
  show "\<forall>(f, d) \<in> set (filenames data_dir). \<exists>cfg obj pkl.
          prepare tf vs nc test kw = Inr cfg \<and>
          fit_spectrum ext cfg (remove_fits f) d = Inr obj \<and> save obj = Inr pkl \<and>
          map_of logdir2 (remove_fits f @ ''.pkl'') = Some (Pkl pkl)"
  proof (clarify)
    fix f d assume "(f, d) \<in> set (filenames data_dir)"
    from run_ppxf_redo_outputs[OF conjunct1[OF a] conjunct2[OF a] this]
    show "\<exists>cfg obj pkl. prepare tf vs nc test kw = Inr cfg \<and>
          fit_spectrum ext cfg (remove_fits f) d = Inr obj \<and> save obj = Inr pkl \<and>
          map_of logdir2 (remove_fits f @ ''.pkl'') = Some (Pkl pkl)" .
  qed
next
  assume "py_int (Some (case vs of None \<Rightarrow> Num 20 | Some v \<Rightarrow> v)) = Inr k"
  then show "make_table vs False logdir (Some t) = Inr (Some t)"
    by (simp add: make_table_gate)
next
  assume "py_int (Some (case vs of None \<Rightarrow> Num 20 | Some v \<Rightarrow> v)) = Inr k"
  then show "make_table vs True logdir (Some t) = make_table vs True logdir None"
    by (simp add: make_table_gate)
next
  assume a: "py_int (Some (case vs of None \<Rightarrow> Num 20 | Some v \<Rightarrow> v)) = Inr k \<and>
    map snd (sort_key fst (filter (\<lambda>(f, _). endswith f ''pkl'') logdir)) = map Pkl ps \<and>
    ps \<noteq> [] \<and>
    (\<forall>p\<in>set ps. length (first_sol p) = m \<and> length (first_error p) = m') \<and>
    4 \<le> m \<and> 4 \<le> m'"
  then show "make_table vs True logdir out = Inr (Some (map row_of ps))"
    by (intro make_table_rebuild[of vs k logdir ps m m']) simp_all
qed

lemma filenames_single: "filenames single_dir = [(''a.fits'', Table example_spectrum)]"
  by (simp add: filenames_def single_dir_def endswith_def)

lemma first_run:
  "run_ppxf example_ext (Some example_bank) (Some (Num 20)) False 1 False example_kwargs
     single_dir [] = (example_logdir ''a'', None)"
  by (simp only: run_ppxf_def prepare_example filenames_single batch_loop_example sum.case)

lemma redo_run:
  "run_ppxf example_ext (Some example_bank) (Some (Num 20)) True 1 False example_kwargs
     single_dir stale_logdir
     = ([(''a.pkl'', Pkl (example_pkl ''a'')), (''a.png'', Png ''a'')], None)"
  by (simp add: run_ppxf_def prepare_example filenames_single stale_logdir_def Let_def
      fit_spectrum_example plot_example save_example write_file_def)

lemma example_pickles:
  "map snd (sort_key fst (filter (\<lambda>(f, _). endswith f ''pkl'')
      (example_logdir ''b'' @ example_logdir ''a'')))
   = map Pkl [example_pkl ''a'', example_pkl ''b'']"
  by (simp add: example_logdir_def endswith_def)

lemma example_moments:
  "first_sol (example_pkl nm) = [Num 100, Num 50, Num (1 / 10), Num (1 / 5)]"
  "first_error (example_pkl nm) = [Num 1, Num 2, Num (1 / 100), Num (1 / 50)]"
  by (simp_all add: first_sol_def first_error_def first_component_def example_pkl_def
      example_solution_def)

lemma example_row:
  "row_of (example_pkl nm) =
     \<lparr>col_spec = nm, col_v = Num 100, col_verr = Num 1, col_sigma = Num 50,
      col_sigmaerr = Num 2, col_h3 = Num (1 / 10), col_h3err = Num (1 / 100),
      col_h4 = Num (1 / 5), col_h4err = Num (1 / 50), col_chi2 = Num 1, col_snr = PInf,
      col_adegree = - 1, col_mdegree = 0\<rparr>"
  unfolding row_of_def example_moments by (simp add: example_pkl_def)

theorem redo_gate_witness:
  "batch_loop example_ext example_cfg False (example_logdir ''a'') single_dir
     = (example_logdir ''a'', None) \<and>
   run_ppxf example_ext (Some example_bank) (Some (Num 20)) False 1 False example_kwargs
     single_dir (example_logdir ''a'') = (example_logdir ''a'', None) \<and>
   map_of (fst (run_ppxf example_ext (Some example_bank) (Some (Num 20)) True 1 False
       example_kwargs single_dir stale_logdir)) ''a.pkl'' = Some (Pkl (example_pkl ''a'')) \<and>
   make_table (Some (Num 20)) False (example_logdir ''a'') (Some []) = Inr (Some []) \<and>
   make_table (Some (Num 20)) True (example_logdir ''b'' @ example_logdir ''a'') (Some [])
     = Inr (Some
        [\<lparr>col_spec = ''a'', col_v = Num 100, col_verr = Num 1, col_sigma = Num 50,
          col_sigmaerr = Num 2, col_h3 = Num (1 / 10), col_h3err = Num (1 / 100),
          col_h4 = Num (1 / 5), col_h4err = Num (1 / 50), col_chi2 = Num 1, col_snr = PInf,
          col_adegree = - 1, col_mdegree = 0\<rparr>,
         \<lparr>col_spec = ''b'', col_v = Num 100, col_verr = Num 1, col_sigma = Num 50,
          col_sigmaerr = Num 2, col_h3 = Num (1 / 10), col_h3err = Num (1 / 100),
          col_h4 = Num (1 / 5), col_h4err = Num (1 / 50), col_chi2 = Num 1, col_snr = PInf,
          col_adegree = - 1, col_mdegree = 0\<rparr>])"
proof -
  have ex: "exists (example_logdir ''a'') (remove_fits ''a.fits'' @ ''.pkl'')"
    by (simp add: exists_def example_logdir_def)
  have skip: "batch_loop example_ext example_cfg False (example_logdir ''a'') single_dir
     = (example_logdir ''a'', None)"
    using redo_gate[where logdir = "example_logdir ''a''" and fname = "''a.fits''"
        and ext = example_ext and cfg = example_cfg and fl = "Table example_spectrum"
        and rest = "[]",
        THEN conjunct1] ex
    by (simp add: single_dir_def)
  have again: "run_ppxf example_ext (Some example_bank) (Some (Num 20)) False 1 False
      example_kwargs single_dir (example_logdir ''a'') = (example_logdir ''a'', None)"
    using redo_gate[where ext = example_ext and tf = "Some example_bank"
        and vs = "Some (Num 20)" and nc = 1 and test = False and kw = example_kwargs
        and data_dir = single_dir and logdir = "[]" and ?logdir1.0 = "example_logdir ''a''"
        and r = None,
        THEN conjunct2, THEN conjunct1] first_run
    by blast
  have d: "distinct (map (\<lambda>x. remove_fits (fst x)) (filenames single_dir))"
    by (simp add: filenames_single)
  have mem: "(''a.fits'', Table example_spectrum) \<in> set (filenames single_dir)"
    by (simp add: filenames_single)
  have "\<forall>(f, d) \<in> set (filenames single_dir). \<exists>cfg obj pkl.
          prepare (Some example_bank) (Some (Num 20)) 1 False example_kwargs = Inr cfg \<and>
          fit_spectrum example_ext cfg (remove_fits f) d = Inr obj \<and> save obj = Inr pkl \<and>
          map_of [(''a.pkl'', Pkl (example_pkl ''a'')), (''a.png'', Png ''a'')]
            (remove_fits f @ ''.pkl'') = Some (Pkl pkl)"
    using redo_gate[where ext = example_ext and tf = "Some example_bank"
        and vs = "Some (Num 20)" and nc = 1 and test = False and kw = example_kwargs
        and data_dir = single_dir and logdir = stale_logdir
        and ?logdir2.0 = "[(''a.pkl'', Pkl (example_pkl ''a'')), (''a.png'', Png ''a'')]",
        THEN conjunct2, THEN conjunct2, THEN conjunct1]
      redo_run d
    by blast
  with mem have "\<exists>cfg obj pkl.
          prepare (Some example_bank) (Some (Num 20)) 1 False example_kwargs = Inr cfg \<and>
          fit_spectrum example_ext cfg (remove_fits ''a.fits'') (Table example_spectrum)
            = Inr obj \<and> save obj = Inr pkl \<and>
          map_of [(''a.pkl'', Pkl (example_pkl ''a'')), (''a.png'', Png ''a'')]
            (remove_fits ''a.fits'' @ ''.pkl'') = Some (Pkl pkl)"
    by blast
  then have over: "map_of [(''a.pkl'', Pkl (example_pkl ''a'')), (''a.png'', Png ''a'')] ''a.pkl''
     = Some (Pkl (example_pkl ''a''))"
    by (auto simp: prepare_example fit_spectrum_example save_example)
  have k: "py_int (Some (case Some (Num 20) of None \<Rightarrow> Num 20 | Some v \<Rightarrow> v)) = Inr 20"
    by (simp add: py_int_def)
  have tab: "make_table (Some (Num 20)) False (example_logdir ''a'') (Some []) = Inr (Some [])"
    using redo_gate[where vs = "Some (Num 20)" and k = 20 and logdir = "example_logdir ''a''"
        and t = "[]",
        THEN conjunct2, THEN conjunct2, THEN conjunct2, THEN conjunct1] k
    by blast
  from over have over': "map_of (fst (run_ppxf example_ext (Some example_bank) (Some (Num 20))
       True 1 False example_kwargs single_dir stale_logdir)) ''a.pkl''
     = Some (Pkl (example_pkl ''a''))"
    by (simp only: redo_run fst_conv)
  have len: "\<forall>p\<in>set [example_pkl ''a'', example_pkl ''b''].
      length (first_sol p) = 4 \<and> length (first_error p) = 4"
    by (simp add: example_moments)
  have "make_table (Some (Num 20)) True (example_logdir ''b'' @ example_logdir ''a'') (Some [])
        = Inr (Some (map row_of [example_pkl ''a'', example_pkl ''b'']))"
    using redo_gate[where vs = "Some (Num 20)" and k = 20
        and logdir = "example_logdir ''b'' @ example_logdir ''a''"
        and ps = "[example_pkl ''a'', example_pkl ''b'']" and m = 4 and m' = 4
        and out = "Some []",
        THEN conjunct2, THEN conjunct2, THEN conjunct2, THEN conjunct2] k example_pickles len
    by blast
  then have rebuilt:
    "make_table (Some (Num 20)) True (example_logdir ''b'' @ example_logdir ''a'') (Some [])
     = Inr (Some
        [\<lparr>col_spec = ''a'', col_v = Num 100, col_verr = Num 1, col_sigma = Num 50,
          col_sigmaerr = Num 2, col_h3 = Num (1 / 10), col_h3err = Num (1 / 100),
          col_h4 = Num (1 / 5), col_h4err = Num (1 / 50), col_chi2 = Num 1, col_snr = PInf,
          col_adegree = - 1, col_mdegree = 0\<rparr>,
         \<lparr>col_spec = ''b'', col_v = Num 100, col_verr = Num 1, col_sigma = Num 50,
          col_sigmaerr = Num 2, col_h3 = Num (1 / 10), col_h3err = Num (1 / 100),
          col_h4 = Num (1 / 5), col_h4err = Num (1 / 50), col_chi2 = Num 1, col_snr = PInf,
          col_adegree = - 1, col_mdegree = 0\<rparr>])"
    by (simp only: list.map example_row)
  from skip again over' tab rebuilt show ?thesis by blast
qed

section \<open>Properties of the Template Matrix Builder\<close>

lemma index_rows_valid:
  "\<forall>i\<in>set idx. - int (length xs) \<le> i \<and> i < int (length xs) \<Longrightarrow>
   index_rows xs idx
     = Inr (map (\<lambda>i. xs ! nat (if i < 0 then int (length xs) + i else i)) idx)"
  by (auto simp: index_rows_def Let_def list_all_iff)

text \<open>
  Claim C7, as amended. A subsample file that exists is returned as it is unless \<open>redo\<close>
  is set: nothing is read and nothing is reduced. When the reduction runs (no subsample
  file yet, or \<open>redo\<close>), the directory holds a weights file and the recorded indices are in
  the range of the bank, the file written holds one row for each index of \<open>used\<close>: the
  union of the recorded indices, ascending and without repetition. The flux row and the
  parameter row at a position of the reduced bank come from the same row of the bank:
  row \<open>i\<close> for an index \<open>i\<close> that is not negative, row \<open>n + i\<close> of the \<open>n\<close> rows for a
  negative one.
\<close>

theorem subsample_is_union_of_used_indices:
  fixes tf :: "('p, 'g) ssp_file"
  defines "n \<equiv> int (length (ssp_templates tf))"
  assumes some: "\<exists>f idx. (f, idx) \<in> set ppdir \<and> endswith f ''weights.fits''"
      and valid: "\<forall>(f, idx)\<in>set ppdir. endswith f ''weights.fits'' \<longrightarrow>
                    (\<forall>i\<in>set idx. - n \<le> i \<and> i < n)"
      and aligned: "length (params tf) = length (ssp_templates tf)"
  shows "(outfile \<noteq> None \<and> \<not> redo \<longrightarrow> select_templates tf ppdir redo outfile = Inr outfile) \<and>
         (outfile = None \<or> redo \<longrightarrow>
            (\<exists>used out. select_templates tf ppdir redo outfile = Inr (Some out) \<and>
               set used
                 = (\<Union>(f, idx)\<in>{x \<in> set ppdir. endswith (fst x) ''weights.fits''}. set idx) \<and>
               sorted used \<and> distinct used \<and>
               ssp_templates out
                 = map (\<lambda>i. ssp_templates tf ! nat (if i < 0 then n + i else i)) used \<and>
               params out = map (\<lambda>i. params tf ! nat (if i < 0 then n + i else i)) used \<and>
               logwave out = logwave tf))"
proof (intro conjI impI)
  assume "outfile \<noteq> None \<and> \<not> redo"
  then show "select_templates tf ppdir redo outfile = Inr outfile"
    by (simp add: select_templates_def)
next
  assume gate: "outfile = None \<or> redo"
  let ?wfiles = "filter (\<lambda>(f, _). endswith f ''weights.fits'') ppdir"
  let ?used = "unique (concat (map snd ?wfiles))"
  let ?row = "\<lambda>i. nat (if i < 0 then n + i else i)"
  from some have ne: "map snd ?wfiles \<noteq> []" by (auto simp: filter_empty_conv)
  then have h: "hstack (map snd ?wfiles) = Inr (concat (map snd ?wfiles))"
    by (simp add: hstack_def)
  have su: "set ?used = (\<Union>(f, idx)\<in>{x \<in> set ppdir. endswith (fst x) ''weights.fits''}. set idx)"
    by (auto simp: unique_def)
  with valid have v: "\<forall>i\<in>set ?used. - n \<le> i \<and> i < n"
    by fastforce
  have t: "index_rows (ssp_templates tf) ?used = Inr (map (\<lambda>i. ssp_templates tf ! ?row i) ?used)"
    using v unfolding n_def by (rule index_rows_valid)
  have p: "index_rows (params tf) ?used = Inr (map (\<lambda>i. params tf ! ?row i) ?used)"
    using v index_rows_valid[of ?used "params tf"] unfolding n_def aligned by simp
  have "select_templates tf ppdir redo outfile =
      Inr (Some \<lparr>ssp_templates = map (\<lambda>i. ssp_templates tf ! ?row i) ?used,
                 params = map (\<lambda>i. params tf ! ?row i) ?used, logwave = logwave tf\<rparr>)"
    using gate by (auto simp: select_templates_def Let_def and_then_def h t p)
  moreover have "sorted ?used" "distinct ?used" by (simp_all add: unique_def)
  ultimately show "\<exists>used out. select_templates tf ppdir redo outfile = Inr (Some out) \<and>
               set used
                 = (\<Union>(f, idx)\<in>{x \<in> set ppdir. endswith (fst x) ''weights.fits''}. set idx) \<and>
               sorted used \<and> distinct used \<and>
               ssp_templates out = map (\<lambda>i. ssp_templates tf ! ?row i) used \<and>
               params out = map (\<lambda>i. params tf ! ?row i) used \<and>
               logwave out = logwave tf"
    using su by auto
qed

lemma bank50_rows:
  "length (ssp_templates bank50) = 50" "length (params bank50) = 50"
  "i < 50 \<Longrightarrow> ssp_templates bank50 ! i = [Num (real i)]"
  "i < 50 \<Longrightarrow> params bank50 ! i = i"
  "logwave bank50 = ()"
  by (simp_all add: bank50_def del: upt_rec_numeral)

lemma fits_dir_weights:
  "filter (\<lambda>(f, _). endswith f ''weights.fits'') fits_dir
     = [(''bin2_weights.fits'', [12, 3]), (''bin1_weights.fits'', [7, 3])]"
  by (simp add: fits_dir_def endswith_def)

lemma unique_example: "unique [12, 3, 7, 3] = [3, 7, 12]"
  by (simp add: unique_def)



lemma idx1: "index_rows (ssp_templates bank50) [3, 7, 12] = Inr [[Num 3], [Num 7], [Num 12]]"
  by (simp add: index_rows_def Let_def bank50_rows)

lemma idx2: "index_rows (params bank50) [3, 7, 12] = Inr [3, 7, 12]"
  by (simp add: index_rows_def Let_def bank50_rows)


lemma stacked_example:
  "hstack (map snd (filter (\<lambda>(f, _). endswith f ''weights.fits'') fits_dir))
     = Inr [12, 3, 7, 3]"
  by (simp add: fits_dir_weights hstack_def)

lemma select_example:
  "select_templates bank50 fits_dir False None
     = Inr (Some \<lparr>ssp_templates = [[Num 3], [Num 7], [Num 12]], params = [3, 7, 12],
                  logwave = ()\<rparr>)"
  by (simp add: select_templates_def Let_def and_then_def stacked_example unique_example
      idx1 idx2)

theorem subsample_is_union_of_used_indices_witness:
  "select_templates bank50 fits_dir False (Some stale_subsample) = Inr (Some stale_subsample) \<and>
   (\<exists>used. select_templates bank50 fits_dir False None
       = Inr (Some \<lparr>ssp_templates = [[Num 3], [Num 7], [Num 12]], params = [3, 7, 12],
                    logwave = ()\<rparr>) \<and>
     set used = {3, 7, 12} \<and> sorted used \<and> distinct used \<and>
     [[Num 3], [Num 7], [Num 12]] = map (\<lambda>i. ssp_templates bank50 ! nat i) used \<and>
     [3, 7, 12] = map (\<lambda>i. params bank50 ! nat i) used)"
proof -
  have some: "\<exists>f idx. (f, idx) \<in> set fits_dir \<and> endswith f ''weights.fits''"
    using fits_dir_weights by (intro exI[of _ "''bin1_weights.fits''"] exI[of _ "[7, 3]"])
      (simp add: fits_dir_def endswith_def)
  have valid: "\<forall>(f, idx)\<in>set fits_dir. endswith f ''weights.fits'' \<longrightarrow>
                 (\<forall>i\<in>set idx. - int (length (ssp_templates bank50)) \<le> i \<and>
                    i < int (length (ssp_templates bank50)))"
    by (simp add: fits_dir_def bank50_rows)
  have aligned: "length (params bank50) = length (ssp_templates bank50)"
    by (simp add: bank50_rows)
  note inst = subsample_is_union_of_used_indices[OF some valid aligned]
  have kept: "select_templates bank50 fits_dir False (Some stale_subsample)
      = Inr (Some stale_subsample)"
    using inst[of "Some stale_subsample" False, THEN conjunct1] by simp
  have "{x \<in> set fits_dir. endswith (fst x) ''weights.fits''}
        = set (filter (\<lambda>(f, _). endswith f ''weights.fits'') fits_dir)"
    by auto
  then have u: "(\<Union>(f, idx)\<in>{x \<in> set fits_dir. endswith (fst x) ''weights.fits''}. set idx)
           = {3, 7, 12}"
    by (simp only: fits_dir_weights) auto
  from inst[of None False, THEN conjunct2]
  obtain used out where r: "select_templates bank50 fits_dir False None = Inr (Some out)"
    "set used = {3, 7, 12}" "sorted used" "distinct used"
    "ssp_templates out
       = map (\<lambda>i. ssp_templates bank50 ! nat (if i < 0 then int (length (ssp_templates bank50)) + i
                                              else i)) used"
    "params out
       = map (\<lambda>i. params bank50 ! nat (if i < 0 then int (length (ssp_templates bank50)) + i
                                       else i)) used"
    unfolding u by blast
  from r(2) have pos: "\<forall>i\<in>set used. \<not> i < 0" by simp
  then have rows: "map (\<lambda>i. xs ! nat (if i < 0 then m + i else i)) used
      = map (\<lambda>i. xs ! nat i) used" for xs :: "'a list" and m
    by simp
  from r(1) have "out = \<lparr>ssp_templates = [[Num 3], [Num 7], [Num 12]], params = [3, 7, 12],
                  logwave = ()\<rparr>"
    by (simp add: select_example)
  with r rows have "\<exists>used. select_templates bank50 fits_dir False None
       = Inr (Some \<lparr>ssp_templates = [[Num 3], [Num 7], [Num 12]], params = [3, 7, 12],
                    logwave = ()\<rparr>) \<and>
     set used = {3, 7, 12} \<and> sorted used \<and> distinct used \<and>
     [[Num 3], [Num 7], [Num 12]] = map (\<lambda>i. ssp_templates bank50 ! nat i) used \<and>
     [3, 7, 12] = map (\<lambda>i. params bank50 ! nat i) used"
    by (intro exI[of _ used]) (simp add: select_example)
  with kept show ?thesis by (rule conjI)
qed

lemma wrap_example:
  "select_templates bank50 wrap_dir False None
     = Inr (Some \<lparr>ssp_templates = [[Num 49], [Num 49]], params = [49, 49], logwave = ()\<rparr>)"
proof -
  have u: "unique [49, - 1] = [- 1, 49]" by (simp add: unique_def)
  have i1: "index_rows (ssp_templates bank50) [- 1, 49] = Inr [[Num 49], [Num 49]]"
    by (simp add: index_rows_def Let_def bank50_rows)
  have i2: "index_rows (params bank50) [- 1, 49] = Inr [49, 49]"
    by (simp add: index_rows_def Let_def bank50_rows)
  show ?thesis
    by (simp add: select_templates_def Let_def and_then_def wrap_dir_def endswith_def
        hstack_def u i1 i2)
qed

text \<open>
  Claim C7 as stated fails. With a subsample file in place and \<open>redo\<close> false, as in the
  only call of the pipeline, the fifty templates of the old file are handed back although
  the fits of the directory used three of them. And a fit that recorded the index \<open>-1\<close>
  beside the index 49 gives a bank that holds row 49 twice.
\<close>

theorem stale_subsample_returned_counterexample:
  "select_templates bank50 fits_dir False (Some bank50) = Inr (Some bank50) \<and>
   select_templates bank50 wrap_dir False None
     = Inr (Some \<lparr>ssp_templates = [[Num 49], [Num 49]], params = [49, 49], logwave = ()\<rparr>)"
  by (simp add: wrap_example) (simp add: select_templates_def)

section \<open>Properties of the entry point\<close>

lemma invocation_supported:
  assumes nc: "nc = 1 \<or> nc = 2" and vs: "py_int vs = Inr k"
  shows "\<exists>kw. stellar_kwargs v0 vs nc = Some kw \<and>
           run_ppxf_invocation v0 vs redo nc =
             Inr \<lparr>a_velscale = vs, a_redo = redo, a_ncomp = 1, a_test = False,
                  a_kwargs = kw(''velscale'' := None)\<rparr>"
proof -
  from vs obtain v where v: "vs = Some v" by (cases vs) (auto simp: py_int_def)
  from vs v have pv: "py_int (Some v) = Inr k" by simp
  from nc show ?thesis
    by (auto simp: run_ppxf_invocation_def and_then_def pv stellar_kwargs_def Let_def v)
qed

lemma prepare_stars_only:
  assumes vs: "py_int vs = Inr k"
  shows "\<exists>cfg. prepare (Some bank) vs 1 False kw = Inr cfg \<and>
           templates cfg = Some (array_T (stars bank)) \<and>
           fit_kwargs cfg ''component'' = Some (int_array (replicate (shape0 (stars bank)) 0))"
proof -
  from vs obtain v where v: "vs = Some v" by (cases vs) (auto simp: py_int_def)
  from vs v have pv: "py_int (Some v) = Inr k" by simp
  show ?thesis
    by (simp add: prepare_def set_components_def and_then_def Let_def v pv)
qed

text \<open>
  Claim C10, as amended. Whenever run\_stellar\_populations reaches the call of run\_ppxf,
  the call has \<open>ncomp = 1\<close>. It reaches it for \<open>ncomp\<close> 1 and 2, given a velocity scale that
  \<open>int()\<close> accepts: for \<open>ncomp = 2\<close> the two-component bounds and starting guesses are
  built and passed on, and still the templates set up for the fit are the stellar ones
  alone, with a component vector of zeros. For any other \<open>ncomp\<close> no branch assigns
  \<open>kwargs\<close> and the call raises UnboundLocalError before run\_ppxf is entered.
\<close>

theorem entry_point_fits_stars_only:
  "(\<forall>a. run_ppxf_invocation v0 vs redo nc = Inr a \<longrightarrow> a_ncomp a = 1) \<and>
   ((nc = 1 \<or> nc = 2) \<and> py_int vs = Inr k \<longrightarrow>
      (\<exists>a. run_ppxf_invocation v0 vs redo nc = Inr a \<and>
           a_ncomp a = 1 \<and> a_velscale a = vs \<and> a_redo a = redo \<and>
           run_stellar_populations ext tf v0 vs redo nc data_dir state =
             (case run_ppxf ext tf vs redo 1 False (a_kwargs a) data_dir (fst state) of
                (logdir, Some e) \<Rightarrow> ((logdir, snd state), Some e)
              | (logdir, None) \<Rightarrow>
                  (case make_table vs True logdir (snd state) of
                     Inl e \<Rightarrow> ((logdir, snd state), Some e)
                   | Inr summary \<Rightarrow> ((logdir, summary), None))) \<and>
           (nc = 2 \<longrightarrow>
              a_kwargs a ''bounds'' = Some (VList [bounds1 v0 800, bounds1 v0 80]) \<and>
              a_kwargs a ''start'' = Some (VList [floats [v0, 50, 0, 0], floats [v0, 50, 0, 0]])) \<and>
           (\<forall>bank. \<exists>cfg.
              prepare (Some bank) (a_velscale a) (a_ncomp a) (a_test a) (a_kwargs a) = Inr cfg \<and>
              templates cfg = Some (array_T (stars bank)) \<and>
              fit_kwargs cfg ''component''
                = Some (int_array (replicate (shape0 (stars bank)) 0))))) \<and>
   (nc \<noteq> 1 \<and> nc \<noteq> 2 \<and> py_int vs = Inr k \<longrightarrow>
      run_ppxf_invocation v0 vs redo nc = Inl UnboundLocalError \<and>
      run_stellar_populations ext tf v0 vs redo nc data_dir state
        = (state, Some UnboundLocalError))"
proof (intro conjI impI allI)
  fix a assume "run_ppxf_invocation v0 vs redo nc = Inr a"
  then show "a_ncomp a = 1"
    by (auto simp: run_ppxf_invocation_def and_then_def split: sum.splits option.splits)
next
  assume h: "(nc = 1 \<or> nc = 2) \<and> py_int vs = Inr k"
  then have nc: "nc = 1 \<or> nc = 2" and vs: "py_int vs = Inr k" by auto
  from invocation_supported[OF nc vs, of v0 redo] obtain kw where
    kw: "stellar_kwargs v0 vs nc = Some kw" and
    inv: "run_ppxf_invocation v0 vs redo nc =
             Inr \<lparr>a_velscale = vs, a_redo = redo, a_ncomp = 1, a_test = False,
                  a_kwargs = kw(''velscale'' := None)\<rparr>" by blast
  let ?a = "\<lparr>a_velscale = vs, a_redo = redo, a_ncomp = 1, a_test = False,
                  a_kwargs = kw(''velscale'' := None)\<rparr>"
  have two: "nc = 2 \<longrightarrow>
              a_kwargs ?a ''bounds'' = Some (VList [bounds1 v0 800, bounds1 v0 80]) \<and>
              a_kwargs ?a ''start'' = Some (VList [floats [v0, 50, 0, 0], floats [v0, 50, 0, 0]])"
    using kw by (auto simp: stellar_kwargs_def Let_def)
  have prep: "\<forall>bank. \<exists>cfg.
              prepare (Some bank) (a_velscale ?a) (a_ncomp ?a) (a_test ?a) (a_kwargs ?a) = Inr cfg \<and>
              templates cfg = Some (array_T (stars bank)) \<and>
              fit_kwargs cfg ''component''
                = Some (int_array (replicate (shape0 (stars bank)) 0))"
    using prepare_stars_only[OF vs] by simp
  show "\<exists>a. run_ppxf_invocation v0 vs redo nc = Inr a \<and>
           a_ncomp a = 1 \<and> a_velscale a = vs \<and> a_redo a = redo \<and>
           run_stellar_populations ext tf v0 vs redo nc data_dir state =
             (case run_ppxf ext tf vs redo 1 False (a_kwargs a) data_dir (fst state) of
                (logdir, Some e) \<Rightarrow> ((logdir, snd state), Some e)
              | (logdir, None) \<Rightarrow>
                  (case make_table vs True logdir (snd state) of
                     Inl e \<Rightarrow> ((logdir, snd state), Some e)
                   | Inr summary \<Rightarrow> ((logdir, summary), None))) \<and>
           (nc = 2 \<longrightarrow>
              a_kwargs a ''bounds'' = Some (VList [bounds1 v0 800, bounds1 v0 80]) \<and>
              a_kwargs a ''start'' = Some (VList [floats [v0, 50, 0, 0], floats [v0, 50, 0, 0]])) \<and>
           (\<forall>bank. \<exists>cfg.
              prepare (Some bank) (a_velscale a) (a_ncomp a) (a_test a) (a_kwargs a) = Inr cfg \<and>
              templates cfg = Some (array_T (stars bank)) \<and>
              fit_kwargs cfg ''component''
                = Some (int_array (replicate (shape0 (stars bank)) 0)))"
    by (rule exI[of _ ?a]) (use inv two prep in \<open>simp add: run_stellar_populations_def\<close>)
next
  assume "nc \<noteq> 1 \<and> nc \<noteq> 2 \<and> py_int vs = Inr k"
  then show "run_ppxf_invocation v0 vs redo nc = Inl UnboundLocalError"
    by (simp add: run_ppxf_invocation_def and_then_def stellar_kwargs_def Let_def)
next
  assume "nc \<noteq> 1 \<and> nc \<noteq> 2 \<and> py_int vs = Inr k"
  then show "run_stellar_populations ext tf v0 vs redo nc data_dir state
        = (state, Some UnboundLocalError)"
    by (simp add: run_stellar_populations_def run_ppxf_invocation_def and_then_def
        stellar_kwargs_def Let_def)
qed

theorem entry_point_fits_stars_only_witness:
  "\<exists>a. run_ppxf_invocation 0 (Some (Num 20)) False 2 = Inr a \<and> a_ncomp a = 1 \<and>
       a_kwargs a ''bounds'' = Some (VList [bounds1 0 800, bounds1 0 80]) \<and>
       (\<exists>cfg. prepare (Some example_bank) (a_velscale a) (a_ncomp a) (a_test a) (a_kwargs a)
                = Inr cfg \<and>
              templates cfg = Some (array_T (stars example_bank)) \<and>
              fit_kwargs cfg ''component'' = Some (int_array [0]))"
proof -
  have k: "py_int (Some (Num 20)) = Inr 20" by (simp add: py_int_def)
  have s: "replicate (shape0 (stars example_bank)) (0::int) = [0]"
    by (simp add: example_bank_def)
  from entry_point_fits_stars_only[of 0 "Some (Num 20)" False 2 20] k
  show ?thesis unfolding s[symmetric] by fastforce
qed

text \<open>
  Claim C10 as stated fails for a component count that is neither 1 nor 2: run\_ppxf is not
  invoked at all. Nor is it when the velocity scale is left at its default \<open>None\<close>, which
  \<open>int()\<close> refuses while the name of the template file is built.
\<close>

theorem unsupported_ncomp_counterexample:
  "run_ppxf_invocation 0 (Some (Num 20)) False 3 = Inl UnboundLocalError \<and>
   run_stellar_populations example_ext (Some example_bank) 0 (Some (Num 20)) False 3
     single_dir ([], None) = (([], None), Some UnboundLocalError) \<and>
   run_stellar_populations example_ext (Some example_bank) 0 None False 1
     single_dir ([], None) = (([], None), Some TypeError)"
  by (simp add: run_stellar_populations_def run_ppxf_invocation_def and_then_def
      stellar_kwargs_def py_int_def)

end
